theory Spec2Isabelle
  imports Complex_Main "HOL-Library.Sublist"
begin

section \<open>Data model\<close>

text \<open>
  The retrieval-augmented pipeline of \<^verbatim>\<open>server/services/ragService.js\<close> and the provider
  registry of \<^verbatim>\<open>server/services/llmProvider.js\<close>. Where the file holds two variants of
  \<^verbatim>\<open>generateResponse\<close>, the first one (the runnable chain, in which the provider lookup
  precedes the vector search) is the one embedded here.

  A stored document as the vector store hands it back: \<^verbatim>\<open>pageContent\<close> and an optional
  \<^verbatim>\<open>metadata\<close> object with an optional \<^verbatim>\<open>source\<close>. The code reads the source as
  \<^verbatim>\<open>doc.metadata?.source\<close>, so an absent metadata object and an absent (or null) source
  field both read as a missing value: \<open>None\<close>. A present source is a string, as the
  ingestion paths write it.
\<close>

record doc_metadata =
  source :: "string option"

record document =
  pageContent :: string
  metadata :: "doc_metadata option"

text \<open>
  A JavaScript number: not a number, an infinity, or a finite double, kept as its exact
  value (a rational).
\<close>

datatype jsNumber = NaN | Infinity | NegInfinity | Finite rat

text \<open>A retrieved chunk: the pair of a document and its relevance score.\<close>

type_synonym scored_chunk = "document \<times> jsNumber"

text \<open>
  What \<^verbatim>\<open>similaritySearchWithScore\<close> resolves to: an array of pairs, or no array at all
  (the code tests \<^verbatim>\<open>!relevantDocs\<close>).
\<close>

datatype relevant_docs = DocsUndefined | DocsNull | Docs "scored_chunk list"

text \<open>A thrown JavaScript error with its \<^verbatim>\<open>message\<close>.\<close>

datatype jsError = Error string | TypeError string

fun message :: "jsError \<Rightarrow> string" where
  "message (Error m) = m"
| "message (TypeError m) = m"

text \<open>The values the service returns: plain objects, arrays, strings and numbers.\<close>

datatype jsValue =
    JUndefined
  | JNull
  | JString string
  | JNumber jsNumber
  | JArray "jsValue list"
  | JObject "(string \<times> jsValue) list"

text \<open>
  Property read \<^verbatim>\<open>o.k\<close> on an object: the stored value, \<^verbatim>\<open>undefined\<close> when the object
  has no such property. The service only reads properties of objects it has just built.
\<close>

fun get_prop :: "jsValue \<Rightarrow> string \<Rightarrow> jsValue" where
  "get_prop (JObject fs) k = (case map_of fs k of Some v \<Rightarrow> v | None \<Rightarrow> JUndefined)"
| "get_prop _ k = JUndefined"


section \<open>Rendering a score: \<^verbatim>\<open>score.toFixed(3)\<close>\<close>

definition digit_char :: "int \<Rightarrow> char" where
  "digit_char d = ''0123456789'' ! nat d"

text \<open>The digits of the decimal representation of a natural number.\<close>

function digits10 :: "int \<Rightarrow> string" where
  "digits10 n =
     (if n < 10 then [digit_char n]
      else digits10 (n div 10) @ [digit_char (n mod 10)])"
  by pat_completeness auto
termination
  by (relation "measure nat") auto

declare digits10.simps [simp del]

text \<open>
  \<^verbatim>\<open>Number::toString\<close> on a finite number from \<open>10^21\<close> on, where every double is a whole
  number. The standard asks for the least number \<open>k\<close> of digits and integers \<open>n\<close>, \<open>s\<close>
  with \<open>10^(k-1) \<le> s < 10^k\<close> such that \<open>s * 10^(n-k)\<close>, rounded to a double, is the
  number; among several \<open>s\<close> the one nearest to the number. The result is the first digit
  of \<open>s\<close>, a point and the other digits if there are any, then \<^verbatim>\<open>e+\<close> and \<open>n - 1\<close>.

  Rounding to a double keeps 53 significant bits, to the nearest, to the even one on a tie.
\<close>

function bit_length :: "int \<Rightarrow> nat" where
  "bit_length n = (if n \<le> 0 then 0 else Suc (bit_length (n div 2)))"
  by pat_completeness auto
termination
  by (relation "measure nat") auto

declare bit_length.simps [simp del]

definition to_double :: "int \<Rightarrow> int" where
  "to_double v =
     (let e = bit_length v - 53;
          q = v div 2 ^ e;
          r = v mod 2 ^ e
      in if 2 ^ e < 2 * r \<or> (2 * r = 2 ^ e \<and> odd q) then (q + 1) * 2 ^ e else q * 2 ^ e)"

text \<open>
  The pairs \<open>(n, s)\<close> with \<open>k\<close> digits that round to the double \<open>x\<close>: \<open>s * 10^(n-k)\<close> is
  one of the two multiples of \<open>10^(n-k)\<close> around \<open>x\<close>, and has as many digits as \<open>x\<close> or
  one more.
\<close>

definition representations :: "int \<Rightarrow> nat \<Rightarrow> (nat \<times> int) list" where
  "representations x k =
     (let N = length (digits10 x)
      in [(n, s). n \<leftarrow> [N, N + 1],
                  s \<leftarrow> [x div 10 ^ (n - k), x div 10 ^ (n - k) + 1],
                  k \<le> n \<and> 10 ^ (k - 1) \<le> s \<and> s < 10 ^ k \<and>
                  to_double (s * 10 ^ (n - k)) = to_double x])"

definition closer :: "int \<Rightarrow> nat \<Rightarrow> nat \<times> int \<Rightarrow> nat \<times> int \<Rightarrow> nat \<times> int" where
  "closer x k a b =
     (let da = \<bar>snd a * 10 ^ (fst a - k) - x\<bar>;
          db = \<bar>snd b * 10 ^ (fst b - k) - x\<bar>
      in if db < da \<or> (db = da \<and> even (snd b) \<and> odd (snd a)) then b else a)"

text \<open>
  The least \<open>k\<close> that has a representation, with the nearest one; all the digits of \<open>x\<close>
  when no shorter one does.
\<close>

definition shortest :: "int \<Rightarrow> nat \<times> nat \<times> int" where
  "shortest x =
     (let N = length (digits10 x)
      in case List.find (\<lambda>k. representations x k \<noteq> []) [1 ..< N] of
           Some k \<Rightarrow>
             (k, foldl (closer x k) (hd (representations x k)) (tl (representations x k)))
         | None \<Rightarrow> (N, N, x))"

definition exponent_notation :: "int \<Rightarrow> string" where
  "exponent_notation x =
     (case shortest x of (k, n, s) \<Rightarrow>
        (if k = 1 then digits10 s else [hd (digits10 s)] @ ''.'' @ tl (digits10 s)) @
        ''e+'' @ digits10 (int n - 1))"

text \<open>
  \<^verbatim>\<open>Number.prototype.toFixed\<close> with three fraction digits. What is not a finite number is
  printed by \<^verbatim>\<open>Number::toString\<close>. A finite number gives its sign, and then: from
  \<open>10^21\<close> on, the exponent notation of its magnitude; below, the integer \<open>n\<close> nearest
  to a thousand times the magnitude (the larger one on a tie) written in decimal, padded
  with zeros to four digits, with the point before the last three.
\<close>

definition nearest_thousandth :: "rat \<Rightarrow> int" where
  "nearest_thousandth x = \<lfloor>\<bar>x\<bar> * 1000 + 1 / 2\<rfloor>"

fun toFixed3 :: "jsNumber \<Rightarrow> string" where
  "toFixed3 NaN = ''NaN''"
| "toFixed3 Infinity = ''Infinity''"
| "toFixed3 NegInfinity = ''-Infinity''"
| "toFixed3 (Finite x) =
     (let s = (if x < 0 then ''-'' else '''')
      in if 10 ^ 21 \<le> \<bar>x\<bar> then s @ exponent_notation \<lfloor>\<bar>x\<bar>\<rfloor>
         else
           let n = nearest_thousandth x;
               m = (if n = 0 then ''0'' else digits10 n);
               k = length m;
               m' = (if k \<le> 3 then replicate (3 + 1 - k) (CHR ''0'') @ m else m);
               k' = (if k \<le> 3 then 3 + 1 else k)
           in s @ take (k' - 3) m' @ ''.'' @ drop (k' - 3) m')"

section \<open>Reading a decimal numeral\<close>

text \<open>
  The number a string of decimal digits stands for. The code does not compute it; it
  says what a rendered score denotes.
\<close>

definition digit_value :: "char \<Rightarrow> int" where
  "digit_value c = of_char c - 48"

definition decimal_value :: "string \<Rightarrow> int" where
  "decimal_value cs = foldl (\<lambda>a c. 10 * a + digit_value c) 0 cs"

section \<open>Formatting the context and extracting the sources\<close>

text \<open>\<^verbatim>\<open>Array.prototype.join\<close> on strings.\<close>

fun join :: "string list \<Rightarrow> string \<Rightarrow> string" where
  "join [] sep = ''''"
| "join [x] sep = x"
| "join (x # y # ys) sep = x @ sep @ join (y # ys) sep"

text \<open>\<^verbatim>\<open>doc.metadata?.source\<close>: missing when the metadata object is.\<close>

definition metadata_source :: "document \<Rightarrow> string option" where
  "metadata_source doc = (case metadata doc of None \<Rightarrow> None | Some m \<Rightarrow> source m)"

text \<open>\<^verbatim>\<open>doc.metadata?.source || 'unknown'\<close>: a missing or empty source is falsy.\<close>

definition source_or_unknown :: "document \<Rightarrow> string" where
  "source_or_unknown doc =
     (case metadata_source doc of
        None \<Rightarrow> ''unknown''
      | Some s \<Rightarrow> if s = [] then ''unknown'' else s)"

definition no_context :: string where
  "no_context = ''No relevant context found in the knowledge base.''"

definition separator :: string where
  "separator = ''\<newline>\<newline>---\<newline>\<newline>''"

text \<open>The callback of \<^verbatim>\<open>map\<close> in \<^verbatim>\<open>formatContext\<close>.\<close>

definition format_chunk :: "scored_chunk \<Rightarrow> string" where
  "format_chunk c =
     (case c of (doc, score) \<Rightarrow>
        let source = source_or_unknown doc;
            content = pageContent doc
        in ''Source: '' @ source @ '' (Relevance: '' @ toFixed3 score @ '')\<newline>'' @ content)"

fun formatContext :: "relevant_docs \<Rightarrow> string" where
  "formatContext DocsUndefined = no_context"
| "formatContext DocsNull = no_context"
| "formatContext (Docs relevantDocs) =
     (if length relevantDocs = 0 then no_context
      else join (map format_chunk relevantDocs) separator)"

text \<open>
  \<^verbatim>\<open>Set.prototype.add\<close> on a set kept in insertion order: a value already present
  leaves the set as it is.
\<close>

definition set_add :: "string list \<Rightarrow> string \<Rightarrow> string list" where
  "set_add sources s = (if s \<in> set sources then sources else sources @ [s])"

text \<open>The callback of \<^verbatim>\<open>forEach\<close> in \<^verbatim>\<open>extractSources\<close>, with its guard \<^verbatim>\<open>if (source)\<close>.\<close>

definition add_source :: "string list \<Rightarrow> scored_chunk \<Rightarrow> string list" where
  "add_source sources c =
     (case metadata_source (fst c) of
        None \<Rightarrow> sources
      | Some s \<Rightarrow> if s \<noteq> [] then set_add sources s else sources)"

text \<open>
  \<^verbatim>\<open>extractSources\<close>: \<^verbatim>\<open>forEach\<close> on something that is not an array raises a TypeError
  (the message is the one Node prints).
\<close>

fun extractSources :: "relevant_docs \<Rightarrow> jsError + string list" where
  "extractSources (Docs relevantDocs) = Inr (foldl add_source [] relevantDocs)"
| "extractSources DocsNull =
     Inl (TypeError ''Cannot read properties of null (reading 'forEach')'')"
| "extractSources DocsUndefined =
     Inl (TypeError ''Cannot read properties of undefined (reading 'forEach')'')"

section \<open>The provider registry\<close>

text \<open>
  The chat-model clients the registry can hold. What a client answers is not part of
  the repository: it is a parameter of the environment below.
\<close>

datatype client = ChatOpenAI | ChatAnthropic | ChatBedrockConverse

text \<open>
  The part of \<^verbatim>\<open>config.llm\<close> the registry reads (\<^verbatim>\<open>server/config/index.js\<close> builds it from
  the process environment). A credential that is not set is \<open>None\<close>; the code tests the
  credentials for truthiness, so an empty string counts as not set.
\<close>

record llm_config =
  openai_apiKey :: "string option"
  anthropic_apiKey :: "string option"
  bedrock_accessKeyId :: "string option"
  bedrock_secretAccessKey :: "string option"
  defaultProvider :: string

definition truthy :: "string option \<Rightarrow> bool" where
  "truthy v = (case v of None \<Rightarrow> False | Some s \<Rightarrow> s \<noteq> [])"

text \<open>
  \<^verbatim>\<open>this.providers\<close> is a \<^verbatim>\<open>Map\<close>: an association list in insertion order. The three
  keys are distinct, so \<^verbatim>\<open>set\<close> never replaces an entry here.
\<close>

type_synonym registry = "(string \<times> client) list"

definition initializeProviders :: "llm_config \<Rightarrow> jsError + registry" where
  "initializeProviders config =
     (let providers = [];
          providers = (if truthy (openai_apiKey config)
                       then providers @ [(''openai'', ChatOpenAI)] else providers);
          providers = (if truthy (anthropic_apiKey config)
                       then providers @ [(''anthropic'', ChatAnthropic)] else providers);
          providers = (if truthy (bedrock_accessKeyId config) \<and>
                          truthy (bedrock_secretAccessKey config)
                       then providers @ [(''bedrock'', ChatBedrockConverse)] else providers)
      in if length providers = 0
         then Inl (Error ''No LLM providers could be initialized. Check your configuration.'')
         else Inr providers)"

text \<open>
  The argument of \<^verbatim>\<open>getProvider\<close> as JavaScript passes it: left out (\<^verbatim>\<open>undefined\<close>),
  \<^verbatim>\<open>null\<close>, or a string. Only \<^verbatim>\<open>undefined\<close> triggers the default of the parameter.
\<close>

datatype name_arg = ArgUndefined | ArgNull | ArgString string

text \<open>The lookup key: \<^verbatim>\<open>null\<close> is never a key of the registry.\<close>

fun resolve_name :: "string \<Rightarrow> name_arg \<Rightarrow> string option" where
  "resolve_name dflt ArgUndefined = Some dflt"
| "resolve_name dflt ArgNull = None"
| "resolve_name dflt (ArgString n) = Some n"

text \<open>The name as the template literal prints it.\<close>

fun name_text :: "string option \<Rightarrow> string" where
  "name_text None = ''null''"
| "name_text (Some n) = n"

definition getAvailableProviders :: "registry \<Rightarrow> string list" where
  "getAvailableProviders ps = map fst ps"

definition getProvider :: "registry \<Rightarrow> string \<Rightarrow> name_arg \<Rightarrow> jsError + client" where
  "getProvider ps dflt arg =
     (let providerName = resolve_name dflt arg;
          provider = (case providerName of None \<Rightarrow> None | Some n \<Rightarrow> map_of ps n)
      in case provider of
           None \<Rightarrow>
             Inl (Error (''LLM provider '' @ [CHR 0x27] @ name_text providerName @ [CHR 0x27] @
                         '' not available. Available providers: '' @
                         join (map fst ps) '', ''))
         | Some p \<Rightarrow> Inr p)"

section \<open>The orchestrator\<close>

text \<open>
  Everything outside the service: the registry and its default, the vector store's
  answer to a query (a rejection is \<open>Inl\<close>), what the chain
  \<^verbatim>\<open>promptTemplate | llm | StringOutputParser\<close> of a client returns for
  \<^verbatim>\<open>{context, question}\<close> (the fixed text of the template plays no part in what
  follows), and the clock.
\<close>

record env =
  providers :: registry
  default_name :: string
  similaritySearchWithScore :: "string \<Rightarrow> int \<Rightarrow> jsError + relevant_docs"
  invoke :: "client \<Rightarrow> string \<Rightarrow> string \<Rightarrow> jsError + string"
  now :: string

text \<open>
  The calls a request makes to the outside, in order, each with its outcome. Logging is
  left out.
\<close>

datatype event =
    Searched string int "jsError + relevant_docs"
  | Invoked client string string "jsError + string"

text \<open>\<^verbatim>\<open>relevantDocs.length\<close>, a TypeError on \<^verbatim>\<open>null\<close> and \<^verbatim>\<open>undefined\<close>.\<close>

fun docs_length :: "relevant_docs \<Rightarrow> jsError + nat" where
  "docs_length (Docs relevantDocs) = Inr (length relevantDocs)"
| "docs_length DocsNull =
     Inl (TypeError ''Cannot read properties of null (reading 'length')'')"
| "docs_length DocsUndefined =
     Inl (TypeError ''Cannot read properties of undefined (reading 'length')'')"

text \<open>
  \<^verbatim>\<open>relevantDocs.map(([doc, score]) => ({source: ..., score: score}))\<close>, a TypeError
  on \<^verbatim>\<open>null\<close> and \<^verbatim>\<open>undefined\<close>.
\<close>

definition score_entry :: "scored_chunk \<Rightarrow> jsValue" where
  "score_entry c =
     (case c of (doc, score) \<Rightarrow>
        JObject [(''source'', JString (source_or_unknown doc)), (''score'', JNumber score)])"

fun relevanceScores :: "relevant_docs \<Rightarrow> jsError + jsValue" where
  "relevanceScores (Docs relevantDocs) = Inr (JArray (map score_entry relevantDocs))"
| "relevanceScores DocsNull =
     Inl (TypeError ''Cannot read properties of null (reading 'map')'')"
| "relevanceScores DocsUndefined =
     Inl (TypeError ''Cannot read properties of undefined (reading 'map')'')"

text \<open>\<^verbatim>\<open>providerName || llmProvider.getAvailableProviders()[0]\<close>.\<close>

definition provider_label :: "registry \<Rightarrow> string option \<Rightarrow> jsValue" where
  "provider_label ps providerName =
     (case providerName of
        Some n \<Rightarrow>
          if n \<noteq> [] then JString n
          else (case getAvailableProviders ps of [] \<Rightarrow> JUndefined | n0 # _ \<Rightarrow> JString n0)
      | None \<Rightarrow> (case getAvailableProviders ps of [] \<Rightarrow> JUndefined | n0 # _ \<Rightarrow> JString n0))"

text \<open>The object \<^verbatim>\<open>generateResponse\<close> returns once the chain has run.\<close>

definition shape_result ::
  "env \<Rightarrow> string \<Rightarrow> string option \<Rightarrow> relevant_docs \<Rightarrow> string \<Rightarrow> jsError + jsValue" where
  "shape_result e question providerName relevantDocs llmResponse =
     (case docs_length relevantDocs of
        Inl err \<Rightarrow> Inl err
      | Inr documentsUsed \<Rightarrow>
          (case extractSources relevantDocs of
             Inl err \<Rightarrow> Inl err
           | Inr sources \<Rightarrow>
               (case relevanceScores relevantDocs of
                  Inl err \<Rightarrow> Inl err
                | Inr scores \<Rightarrow>
                    Inr (JObject
                      [(''response'', JString llmResponse),
                       (''context'', JObject
                          [(''documentsUsed'', JNumber (Finite (of_nat documentsUsed))),
                           (''sources'', JArray (map JString sources)),
                           (''relevanceScores'', scores)]),
                       (''metadata'', JObject
                          [(''question'', JString question),
                           (''provider'', provider_label (providers e) providerName),
                           (''timestamp'', JString (now e))])]))))"

text \<open>
  \<^verbatim>\<open>generateResponse\<close>: the provider is looked up first, then the chain runs the search,
  formats the context and invokes the client; any error is rethrown as it is.
\<close>

definition generateResponse ::
  "env \<Rightarrow> string \<Rightarrow> string option \<Rightarrow> int \<Rightarrow> event list \<times> (jsError + jsValue)" where
  "generateResponse e question providerName k =
     (case getProvider (providers e) (default_name e)
             (case providerName of None \<Rightarrow> ArgNull | Some n \<Rightarrow> ArgString n) of
        Inl err \<Rightarrow> ([], Inl err)
      | Inr llm \<Rightarrow>
          (let results = similaritySearchWithScore e question k;
               searched = Searched question k results
           in case results of
                Inl err \<Rightarrow> ([searched], Inl err)
              | Inr relevantDocs \<Rightarrow>
                  (let context = formatContext relevantDocs;
                       response = invoke e llm context question;
                       invoked = Invoked llm context question response
                   in case response of
                        Inl err \<Rightarrow> ([searched, invoked], Inl err)
                      | Inr llmResponse \<Rightarrow>
                          ([searched, invoked],
                           shape_result e question providerName relevantDocs llmResponse))))"

text \<open>
  The options of \<^verbatim>\<open>askQuestion\<close>; a field left out takes its default
  (\<^verbatim>\<open>provider = null\<close>, \<^verbatim>\<open>maxContextDocs = 5\<close>, \<^verbatim>\<open>includeContext = false\<close>).
\<close>

record options =
  provider :: "string option"
  maxContextDocs :: "int option"
  includeContext :: "bool option"

definition askQuestion :: "env \<Rightarrow> string \<Rightarrow> options \<Rightarrow> event list \<times> (jsError + jsValue)" where
  "askQuestion e question opts =
     (let providerName = provider opts;
          k = (case maxContextDocs opts of None \<Rightarrow> 5 | Some n \<Rightarrow> n);
          withContext = (case includeContext opts of None \<Rightarrow> False | Some b \<Rightarrow> b)
      in case generateResponse e question providerName k of
           (tr, Inl err) \<Rightarrow>
             (tr, Inl (Error (''Failed to generate response: '' @ message err)))
         | (tr, Inr result) \<Rightarrow>
             if \<not> withContext
             then (tr, Inr (JObject
                     [(''response'', get_prop result ''response''),
                      (''sources'', get_prop (get_prop result ''context'') ''sources''),
                      (''metadata'', JObject
                         [(''provider'', get_prop (get_prop result ''metadata'') ''provider''),
                          (''timestamp'',
                             get_prop (get_prop result ''metadata'') ''timestamp'')])]))
             else (tr, Inr result))"

text \<open>
  \<^verbatim>\<open>getContextForQuestion\<close>: search and format only; the object literal evaluates
  \<^verbatim>\<open>context\<close>, \<^verbatim>\<open>sources\<close> and \<^verbatim>\<open>documentCount\<close> in this order.
\<close>

definition getContextForQuestion ::
  "env \<Rightarrow> string \<Rightarrow> int \<Rightarrow> event list \<times> (jsError + jsValue)" where
  "getContextForQuestion e question maxDocs =
     (let results = similaritySearchWithScore e question maxDocs;
          searched = Searched question maxDocs results
      in case results of
           Inl err \<Rightarrow> ([searched], Inl err)
         | Inr relevantDocs \<Rightarrow>
             (let context = formatContext relevantDocs
              in case extractSources relevantDocs of
                   Inl err \<Rightarrow> ([searched], Inl err)
                 | Inr sources \<Rightarrow>
                     (case docs_length relevantDocs of
                        Inl err \<Rightarrow> ([searched], Inl err)
                      | Inr documentCount \<Rightarrow>
                          ([searched],
                           Inr (JObject
                             [(''context'', JString context),
                              (''sources'', JArray (map JString sources)),
                              (''documentCount'', JNumber (Finite (of_nat documentCount)))])))))"

section \<open>Order of first appearance\<close>

text \<open>
  The position, in a chunk list, of the first chunk whose source is \<open>s\<close> (the length of
  the list when there is none). It is what the order of the extracted sources is measured
  against; the code does not compute it.
\<close>

definition first_seen :: "scored_chunk list \<Rightarrow> string \<Rightarrow> nat" where
  "first_seen relevantDocs s =
     length (takeWhile (\<lambda>c. metadata_source (fst c) \<noteq> Some s) relevantDocs)"

section \<open>Sample data\<close>

text \<open>
  The chunk of the specification's scenario; its score is the double nearest to 0.87.
\<close>

definition otel_chunk :: scored_chunk where
  "otel_chunk =
     (\<lparr>pageContent = ''Use NodeSDK to start tracing.'',
       metadata = Some \<lparr>source = Some ''otel-docs''\<rparr>\<rparr>,
      Finite (7836263351624663 / 9007199254740992))"

text \<open>A chunk whose source is the empty string, and one stored without metadata.\<close>

definition blank_source_chunk :: scored_chunk where
  "blank_source_chunk =
     (\<lparr>pageContent = ''Spans nest by context.'',
       metadata = Some \<lparr>source = Some ''''\<rparr>\<rparr>, Finite (1 / 2))"

definition unlabelled_chunk :: scored_chunk where
  "unlabelled_chunk = (\<lparr>pageContent = ''Exporters send spans.'', metadata = None\<rparr>,
      Finite (1 / 4))"

text \<open>
  A service with OpenAI configured only, a store that answers every query with
  \<open>found\<close>, and a model that always answers with the same sentence.
\<close>

definition sample_config :: llm_config where
  "sample_config =
     \<lparr>openai_apiKey = Some ''sk-test'', anthropic_apiKey = None,
      bedrock_accessKeyId = None, bedrock_secretAccessKey = None,
      defaultProvider = ''openai''\<rparr>"

definition sample_env :: "jsError + relevant_docs \<Rightarrow> env" where
  "sample_env found =
     \<lparr>providers = [(''openai'', ChatOpenAI)],
      default_name = ''openai'',
      similaritySearchWithScore = (\<lambda>question k. found),
      invoke = (\<lambda>llm context question. Inr ''Call sdk.start().''),
      now = ''2024-01-15T10:30:00.000Z''\<rparr>"

definition with_openai :: "bool \<Rightarrow> options" where
  "with_openai withContext =
     \<lparr>provider = Some ''openai'', maxContextDocs = None, includeContext = Some withContext\<rparr>"

definition no_provider :: options where
  "no_provider = \<lparr>provider = None, maxContextDocs = None, includeContext = None\<rparr>"

text \<open>Four retrieved chunks: the scenario's chunk twice, around the two above.\<close>

definition mixed_chunks :: "scored_chunk list" where
  "mixed_chunks = [otel_chunk, unlabelled_chunk, blank_source_chunk, otel_chunk]"

text \<open>
  What \<^verbatim>\<open>askQuestion\<close> returns for the scenario's chunk when asked to include the
  context.
\<close>

definition otel_answer :: jsValue where
  "otel_answer =
     JObject
       [(''response'', JString ''Call sdk.start().''),
        (''context'', JObject
           [(''documentsUsed'', JNumber (Finite 1)),
            (''sources'', JArray [JString ''otel-docs'']),
            (''relevanceScores'', JArray
               [JObject [(''source'', JString ''otel-docs''),
                         (''score'', JNumber (Finite (7836263351624663 / 9007199254740992)))]])]),
        (''metadata'', JObject
           [(''question'', JString ''How do I start tracing?''),
            (''provider'', JString ''openai''),
            (''timestamp'', JString ''2024-01-15T10:30:00.000Z'')])]"

text \<open>A registry with two providers, as two configured credentials give it.\<close>

definition two_providers :: registry where
  "two_providers = [(''openai'', ChatOpenAI), (''anthropic'', ChatAnthropic)]"

section \<open>Rendered scores\<close>

lemma digit_cases:
  fixes d :: int
  assumes "0 \<le> d" and "d < 10"
  shows "d = 0 \<or> d = 1 \<or> d = 2 \<or> d = 3 \<or> d = 4 \<or> d = 5 \<or> d = 6 \<or> d = 7 \<or> d = 8 \<or> d = 9"
  using assms by arith

lemma digit_char_digit:
  assumes "0 \<le> d" and "d < 10"
  shows "digit_char d \<in> set ''0123456789''"
  using digit_cases [OF assms] by (auto simp: digit_char_def)

lemma digit_value_digit_char:
  assumes "0 \<le> d" and "d < 10"
  shows "digit_value (digit_char d) = d"
  using digit_cases [OF assms] by (auto simp: digit_char_def digit_value_def)

lemma digit_char_zero:
  assumes "0 < d" and "d < 10"
  shows "digit_char d \<noteq> CHR ''0''"
proof -
  from assms have "0 \<le> d" by simp
  from digit_cases [OF this assms(2)] assms(1) show ?thesis
    by (auto simp: digit_char_def)
qed

lemma digits10_small: "n < 10 \<Longrightarrow> digits10 n = [digit_char n]"
  by (subst digits10.simps) simp

lemma digits10_step: "10 \<le> n \<Longrightarrow> digits10 n = digits10 (n div 10) @ [digit_char (n mod 10)]"
  by (subst digits10.simps) simp

lemma digits10_nonempty: "digits10 n \<noteq> []"
  by (subst digits10.simps) simp

lemma decimal_value_snoc: "decimal_value (cs @ [c]) = 10 * decimal_value cs + digit_value c"
  by (simp add: decimal_value_def)

lemma decimal_value_digits10: "0 \<le> n \<Longrightarrow> decimal_value (digits10 n) = n"
proof (induction n rule: digits10.induct)
  case (1 n)
  show ?case
  proof (cases "n < 10")
    case True
    with "1.prems" show ?thesis
      by (simp add: digits10_small decimal_value_def digit_value_digit_char)
  next
    case False
    then have "decimal_value (digits10 (n div 10)) = n div 10"
      using "1.IH" "1.prems" by simp
    moreover have "digit_value (digit_char (n mod 10)) = n mod 10"
      by (simp add: digit_value_digit_char)
    ultimately show ?thesis
      using False by (simp add: digits10_step decimal_value_snoc)
  qed
qed

lemma digits10_digits: "0 \<le> n \<Longrightarrow> set (digits10 n) \<subseteq> set ''0123456789''"
proof (induction n rule: digits10.induct)
  case (1 n)
  show ?case
  proof (cases "n < 10")
    case True
    with "1.prems" digit_char_digit [of n] show ?thesis
      by (simp add: digits10_small)
  next
    case False
    then have "set (digits10 (n div 10)) \<subseteq> set ''0123456789''"
      using "1.IH" "1.prems" by simp
    moreover have "digit_char (n mod 10) \<in> set ''0123456789''"
      by (rule digit_char_digit) simp_all
    ultimately show ?thesis
      using False by (simp add: digits10_step)
  qed
qed

lemma digits10_leading: "0 < n \<Longrightarrow> hd (digits10 n) \<noteq> CHR ''0''"
proof (induction n rule: digits10.induct)
  case (1 n)
  show ?case
  proof (cases "n < 10")
    case True
    with "1.prems" show ?thesis
      by (simp add: digits10_small digit_char_zero)
  next
    case False
    then have "hd (digits10 (n div 10)) \<noteq> CHR ''0''"
      using "1.IH" by simp
    then show ?thesis
      using False by (simp add: digits10_step digits10_nonempty)
  qed
qed

lemma digits10_zero: "digits10 0 = ''0''"
  by (simp add: digits10_small digit_char_def)

lemma digits10_three:
  assumes "1000 \<le> n"
  shows "digits10 n = digits10 (n div 1000) @
           [digit_char (n div 100 mod 10), digit_char (n div 10 mod 10), digit_char (n mod 10)]"
proof -
  have a: "digits10 n = digits10 (n div 10) @ [digit_char (n mod 10)]"
    using assms by (simp add: digits10_step)
  have b: "digits10 (n div 10) = digits10 (n div 10 div 10) @ [digit_char (n div 10 mod 10)]"
    using assms by (simp add: digits10_step)
  have c: "digits10 (n div 10 div 10) =
             digits10 (n div 10 div 10 div 10) @ [digit_char (n div 10 div 10 mod 10)]"
    using assms by (simp add: digits10_step)
  have d: "n div 10 div 10 = n div 100" "n div 10 div 10 div 10 = n div 1000"
    by (simp_all add: zdiv_zmult2_eq [symmetric])
  show ?thesis
    using a b c d by simp
qed

lemma replicate_zeros:
  "replicate (Suc 0) c = [c]" "replicate 2 c = [c, c]" "replicate 3 c = [c, c, c]"
  by (simp_all add: numeral_2_eq_2 numeral_3_eq_3)

text \<open>
  Padding and placing the point, for every \<open>n\<close>: the integer part is \<open>n div 1000\<close>, the
  three fraction digits are those of \<open>n mod 1000\<close>.
\<close>

lemma pad_point:
  fixes n :: int
  assumes "0 \<le> n"
  shows "(let m = (if n = 0 then ''0'' else digits10 n);
            k = length m;
            m' = (if k \<le> 3 then replicate (3 + 1 - k) (CHR ''0'') @ m else m);
            k' = (if k \<le> 3 then 3 + 1 else k)
          in take (k' - 3) m' @ ''.'' @ drop (k' - 3) m') =
         digits10 (n div 1000) @ ''.'' @
           [digit_char (n div 100 mod 10), digit_char (n div 10 mod 10), digit_char (n mod 10)]"
proof -
  consider "n = 0" | "0 < n" "n < 10" | "10 \<le> n" "n < 100" | "100 \<le> n" "n < 1000" | "1000 \<le> n"
    using assms by linarith
  then show ?thesis
  proof cases
    case 1
    then show ?thesis by (simp add: digits10_small digit_char_def replicate_zeros)
  next
    case 2
    then show ?thesis by (simp add: digits10_small digit_char_def replicate_zeros)
  next
    case 3
    then have "n div 10 < 10" by simp
    with 3 show ?thesis
      by (simp add: digits10_step digits10_small digit_char_def Let_def replicate_zeros)
  next
    case 4
    then have "n div 10 div 10 < 10" "10 \<le> n div 10" by simp_all
    with 4 show ?thesis
      by (simp add: digits10_step [of n] digits10_step [of "n div 10"] digits10_small Let_def
            replicate_zeros digit_char_def zdiv_zmult2_eq [symmetric])
  next
    case 5
    then show ?thesis
      by (simp add: digits10_three digits10_nonempty Let_def)
  qed
qed

lemma nearest_thousandth_nonneg: "0 \<le> nearest_thousandth x"
  by (simp add: nearest_thousandth_def)

lemma nearest_thousandth_bounds:
  "of_int (nearest_thousandth x) \<le> 1000 * \<bar>x\<bar> + 1 / 2 \<and>
   1000 * \<bar>x\<bar> + 1 / 2 < of_int (nearest_thousandth x) + 1"
proof -
  have "of_int \<lfloor>\<bar>x\<bar> * 1000 + 1 / 2\<rfloor> \<le> \<bar>x\<bar> * 1000 + 1 / 2"
    and "\<bar>x\<bar> * 1000 + 1 / 2 < of_int \<lfloor>\<bar>x\<bar> * 1000 + 1 / 2\<rfloor> + 1"
    by linarith+
  then show ?thesis
    by (simp add: nearest_thousandth_def mult.commute)
qed

lemma toFixed3_shape:
  assumes "\<bar>x\<bar> < 10 ^ 21"
  shows "toFixed3 (Finite x) =
           (if x < 0 then ''-'' else '''') @ digits10 (nearest_thousandth x div 1000) @ ''.'' @
           [digit_char (nearest_thousandth x div 100 mod 10),
            digit_char (nearest_thousandth x div 10 mod 10),
            digit_char (nearest_thousandth x mod 10)]"
proof -
  have "\<not> 10 ^ 21 \<le> \<bar>x\<bar>"
    using assms by simp
  then have "toFixed3 (Finite x) = (if x < 0 then ''-'' else '''') @
      (let m = (if nearest_thousandth x = 0 then ''0'' else digits10 (nearest_thousandth x));
           k = length m;
           m' = (if k \<le> 3 then replicate (3 + 1 - k) (CHR ''0'') @ m else m);
           k' = (if k \<le> 3 then 3 + 1 else k)
       in take (k' - 3) m' @ ''.'' @ drop (k' - 3) m')"
    unfolding toFixed3.simps Let_def by simp
  then show ?thesis
    by (simp only: pad_point [OF nearest_thousandth_nonneg])
qed

lemma thousands_split:
  fixes n :: int
  shows "n = 1000 * (n div 1000) + 100 * (n div 100 mod 10) + 10 * (n div 10 mod 10) + n mod 10"
proof -
  have a: "n = 10 * (n div 10) + n mod 10"
    by simp
  have b: "n div 10 = 10 * (n div 100) + n div 10 mod 10"
    using div_mult_mod_eq [of "n div 10" 10] by (simp add: zdiv_zmult2_eq [symmetric])
  have c: "n div 100 = 10 * (n div 1000) + n div 100 mod 10"
    using div_mult_mod_eq [of "n div 100" 10] by (simp add: zdiv_zmult2_eq [symmetric])
  from a b c show ?thesis
    by linarith
qed

text \<open>
  What a score of magnitude below \<open>10^21\<close> is rendered as: the sign, the digits of an
  integer part without leading zeros, a point and three digits, which together read as
  the integer nearest to a thousand times the magnitude.
\<close>

lemma toFixed3_reads_back:
  assumes "\<bar>x\<bar> < 10 ^ 21"
  shows "\<exists>n ip fp.
           toFixed3 (Finite x) = (if x < 0 then ''-'' else '''') @ ip @ ''.'' @ fp \<and>
           of_int n \<le> 1000 * \<bar>x\<bar> + 1 / 2 \<and> 1000 * \<bar>x\<bar> + 1 / 2 < of_int n + 1 \<and>
           length fp = 3 \<and> ip \<noteq> [] \<and> (ip = ''0'' \<or> hd ip \<noteq> CHR ''0'') \<and>
           set (ip @ fp) \<subseteq> set ''0123456789'' \<and>
           decimal_value (ip @ fp) = n"
proof -
  let ?n = "nearest_thousandth x"
  let ?ip = "digits10 (?n div 1000)"
  let ?fp = "[digit_char (?n div 100 mod 10), digit_char (?n div 10 mod 10),
              digit_char (?n mod 10)]"
  have n0: "0 \<le> ?n"
    by (rule nearest_thousandth_nonneg)
  then have q0: "0 \<le> ?n div 1000"
    by simp
  have shape: "toFixed3 (Finite x) = (if x < 0 then ''-'' else '''') @ ?ip @ ''.'' @ ?fp"
    using toFixed3_shape [OF assms] by simp
  have lead: "?ip = ''0'' \<or> hd ?ip \<noteq> CHR ''0''"
  proof (cases "?n div 1000 = 0")
    case True
    then show ?thesis by (simp add: digits10_zero)
  next
    case False
    with q0 have "0 < ?n div 1000" by simp
    then show ?thesis by (simp add: digits10_leading)
  qed
  have d2: "digit_char (?n div 100 mod 10) \<in> set ''0123456789''"
    and d1: "digit_char (?n div 10 mod 10) \<in> set ''0123456789''"
    and d0: "digit_char (?n mod 10) \<in> set ''0123456789''"
    by (rule digit_char_digit; simp)+
  have digits: "set (?ip @ ?fp) \<subseteq> set ''0123456789''"
    using digits10_digits [OF q0] d2 d1 d0 by simp
  have v2: "digit_value (digit_char (?n div 100 mod 10)) = ?n div 100 mod 10"
    and v1: "digit_value (digit_char (?n div 10 mod 10)) = ?n div 10 mod 10"
    and v0: "digit_value (digit_char (?n mod 10)) = ?n mod 10"
    by (rule digit_value_digit_char; simp)+
  have "decimal_value (?ip @ ?fp) =
      10 * (10 * (10 * decimal_value ?ip + ?n div 100 mod 10) + ?n div 10 mod 10) + ?n mod 10"
    unfolding decimal_value_def by (simp add: v2 v1 v0)
  also have "\<dots> = 1000 * (?n div 1000) + 100 * (?n div 100 mod 10) +
      10 * (?n div 10 mod 10) + ?n mod 10"
    by (simp add: decimal_value_digits10 [OF q0])
  also have "\<dots> = ?n"
    by (rule thousands_split [symmetric])
  finally have reads: "decimal_value (?ip @ ?fp) = ?n" .
  have len: "length ?fp = 3"
    by simp
  have ne: "?ip \<noteq> []"
    by (rule digits10_nonempty)
  note near = nearest_thousandth_bounds [of x]
  from shape near [THEN conjunct1] near [THEN conjunct2] len ne lead digits reads
  show ?thesis
    by - (intro exI [of _ ?n] exI [of _ ?ip] exI [of _ ?fp] conjI; assumption)
qed

lemma toFixed3_double_087:
  "toFixed3 (Finite (7836263351624663 / 9007199254740992)) = ''0.870''"
  by code_simp

lemma toFixed3_decimal_087: "toFixed3 (Finite (87 / 100)) = ''0.870''"
  by code_simp

lemma toFixed3_beyond: "toFixed3 (Finite (10 ^ 21)) = ''1e+21''"
  by code_simp

lemma join_layout:
  "xs \<noteq> [] \<Longrightarrow> join xs sep = hd xs @ concat (map (\<lambda>x. sep @ x) (tl xs))"
  by (induction xs sep rule: join.induct) simp_all

lemma format_chunk_text:
  "format_chunk (doc, score) =
     ''Source: '' @ source_or_unknown doc @ '' (Relevance: '' @ toFixed3 score @
     '')\<newline>'' @ pageContent doc"
  by (simp add: format_chunk_def)

section \<open>The formatted context\<close>

text \<open>
  C10. Called with \<^verbatim>\<open>null\<close> or \<^verbatim>\<open>undefined\<close> in place of the chunk list,
  \<^verbatim>\<open>formatContext\<close> returns the sentinel sentence, the value it returns for an empty
  list; it raises nothing.
\<close>

theorem formatContext_absent_input:
  "formatContext DocsNull = ''No relevant context found in the knowledge base.'' \<and>
   formatContext DocsUndefined = ''No relevant context found in the knowledge base.'' \<and>
   formatContext DocsNull = formatContext (Docs []) \<and>
   formatContext DocsUndefined = formatContext (Docs [])"
  by (simp add: no_context_def)

text \<open>
  C6 as stated fails where \<^verbatim>\<open>toFixed\<close> leaves the fixed notation: a chunk with the
  score \<open>10^21\<close> is headed \<^verbatim>\<open>Relevance: 1e+21\<close>, one whose score is not a number
  \<^verbatim>\<open>Relevance: NaN\<close>, neither with three decimal places.
\<close>

theorem score_without_decimals_counterexample:
  "formatContext (Docs [(fst otel_chunk, Finite (10 ^ 21))]) =
     ''Source: otel-docs (Relevance: 1e+21)\<newline>Use NodeSDK to start tracing.'' \<and>
   formatContext (Docs [(fst otel_chunk, NaN)]) =
     ''Source: otel-docs (Relevance: NaN)\<newline>Use NodeSDK to start tracing.''"
proof -
  have src: "source_or_unknown (fst otel_chunk) = ''otel-docs''"
    by (simp add: otel_chunk_def source_or_unknown_def metadata_source_def)
  have body: "pageContent (fst otel_chunk) = ''Use NodeSDK to start tracing.''"
    by (simp add: otel_chunk_def)
  have one: "formatContext (Docs [(fst otel_chunk, score)]) =
      format_chunk (fst otel_chunk, score)" for score
    by simp
  have a: "formatContext (Docs [(fst otel_chunk, Finite (10 ^ 21))]) =
     ''Source: otel-docs (Relevance: 1e+21)\<newline>Use NodeSDK to start tracing.''"
    unfolding one format_chunk_text src body toFixed3_beyond by simp
  have b: "formatContext (Docs [(fst otel_chunk, NaN)]) =
     ''Source: otel-docs (Relevance: NaN)\<newline>Use NodeSDK to start tracing.''"
    unfolding one format_chunk_text src body toFixed3.simps by simp
  from a b show ?thesis
    by (rule conjI)
qed

text \<open>
  C6, for the scores \<^verbatim>\<open>toFixed\<close> prints in fixed notation. For a non-empty chunk list
  whose scores are finite and below \<open>10^21\<close> in magnitude, \<^verbatim>\<open>formatContext\<close> yields one
  entry per chunk in result order, the entries joined by a line of three dashes between
  blank lines. An entry is the header \<^verbatim>\<open>Source: <source> (Relevance: <score>)\<close>, a line
  break and the chunk's content as it is. The source shown is the chunk's source, and
  \<^verbatim>\<open>unknown\<close> when the chunk has none or an empty one. The score shown has exactly three
  decimal places: it is a minus sign for a negative score, an integer part without
  leading zeros, a point and three digits, and the digits read as the integer nearest to
  a thousand times the score's magnitude (the larger one on a tie). A single chunk with
  source \<^verbatim>\<open>otel-docs\<close> and score 0.87, taken as the double or as the decimal, gives the
  header \<^verbatim>\<open>Source: otel-docs (Relevance: 0.870)\<close> followed by its content.
\<close>

theorem formatContext_layout:
  assumes "relevantDocs \<noteq> []"
    and "\<forall>c \<in> set relevantDocs. \<exists>x. snd c = Finite x \<and> \<bar>x\<bar> < 10 ^ 21"
  shows "(\<exists>entries.
            length entries = length relevantDocs \<and>
            formatContext (Docs relevantDocs) =
              hd entries @ concat (map (\<lambda>e. ''\<newline>\<newline>---\<newline>\<newline>'' @ e) (tl entries)) \<and>
            (\<forall>i < length relevantDocs. \<exists>shown x n ip fp.
               entries ! i =
                 ''Source: '' @ shown @ '' (Relevance: '' @
                 (if x < 0 then ''-'' else '''') @ ip @ ''.'' @ fp @ '')\<newline>'' @
                 pageContent (fst (relevantDocs ! i)) \<and>
               (\<forall>m s. metadata (fst (relevantDocs ! i)) = Some m \<and> source m = Some s \<and> s \<noteq> []
                   \<longrightarrow> shown = s) \<and>
               (metadata (fst (relevantDocs ! i)) = None \<or>
                (\<exists>m. metadata (fst (relevantDocs ! i)) = Some m \<and>
                     (source m = None \<or> source m = Some ''''))
                   \<longrightarrow> shown = ''unknown'') \<and>
               snd (relevantDocs ! i) = Finite x \<and>
               of_int n \<le> 1000 * \<bar>x\<bar> + 1 / 2 \<and> 1000 * \<bar>x\<bar> + 1 / 2 < of_int n + 1 \<and>
               length fp = 3 \<and> ip \<noteq> [] \<and> (ip = ''0'' \<or> hd ip \<noteq> CHR ''0'') \<and>
               set (ip @ fp) \<subseteq> set ''0123456789'' \<and>
               decimal_value (ip @ fp) = n)) \<and>
         formatContext
           (Docs [(\<lparr>pageContent = content, metadata = Some \<lparr>source = Some ''otel-docs''\<rparr>\<rparr>,
                   Finite (7836263351624663 / 9007199254740992))]) =
           ''Source: otel-docs (Relevance: 0.870)\<newline>'' @ content \<and>
         formatContext
           (Docs [(\<lparr>pageContent = content, metadata = Some \<lparr>source = Some ''otel-docs''\<rparr>\<rparr>,
                   Finite (87 / 100))]) =
           ''Source: otel-docs (Relevance: 0.870)\<newline>'' @ content"
proof (intro conjI)
  let ?entries = "map format_chunk relevantDocs"
  have nonempty: "?entries \<noteq> []"
    using assms(1) by simp
  show "\<exists>entries.
            length entries = length relevantDocs \<and>
            formatContext (Docs relevantDocs) =
              hd entries @ concat (map (\<lambda>e. ''\<newline>\<newline>---\<newline>\<newline>'' @ e) (tl entries)) \<and>
            (\<forall>i < length relevantDocs. \<exists>shown x n ip fp.
               entries ! i =
                 ''Source: '' @ shown @ '' (Relevance: '' @
                 (if x < 0 then ''-'' else '''') @ ip @ ''.'' @ fp @ '')\<newline>'' @
                 pageContent (fst (relevantDocs ! i)) \<and>
               (\<forall>m s. metadata (fst (relevantDocs ! i)) = Some m \<and> source m = Some s \<and> s \<noteq> []
                   \<longrightarrow> shown = s) \<and>
               (metadata (fst (relevantDocs ! i)) = None \<or>
                (\<exists>m. metadata (fst (relevantDocs ! i)) = Some m \<and>
                     (source m = None \<or> source m = Some ''''))
                   \<longrightarrow> shown = ''unknown'') \<and>
               snd (relevantDocs ! i) = Finite x \<and>
               of_int n \<le> 1000 * \<bar>x\<bar> + 1 / 2 \<and> 1000 * \<bar>x\<bar> + 1 / 2 < of_int n + 1 \<and>
               length fp = 3 \<and> ip \<noteq> [] \<and> (ip = ''0'' \<or> hd ip \<noteq> CHR ''0'') \<and>
               set (ip @ fp) \<subseteq> set ''0123456789'' \<and>
               decimal_value (ip @ fp) = n)"
  proof (intro exI [of _ ?entries] conjI allI impI)
    show "length ?entries = length relevantDocs"
      by simp
    show "formatContext (Docs relevantDocs) =
        hd ?entries @ concat (map (\<lambda>e. ''\<newline>\<newline>---\<newline>\<newline>'' @ e) (tl ?entries))"
      using join_layout [OF nonempty, of separator] assms(1) by (simp add: separator_def)
  next
    fix i assume i: "i < length relevantDocs"
    obtain d sc where ds: "relevantDocs ! i = (d, sc)"
      by (cases "relevantDocs ! i")
    have "relevantDocs ! i \<in> set relevantDocs"
      using i by simp
    with assms(2) ds obtain x where x: "sc = Finite x" "\<bar>x\<bar> < 10 ^ 21"
      by fastforce
    from toFixed3_reads_back [OF x(2)] obtain n ip fp where
      shape: "toFixed3 (Finite x) = (if x < 0 then ''-'' else '''') @ ip @ ''.'' @ fp" and
      lo: "of_int n \<le> 1000 * \<bar>x\<bar> + 1 / 2" and
      hi: "1000 * \<bar>x\<bar> + 1 / 2 < of_int n + 1" and
      len: "length fp = 3" and
      ne: "ip \<noteq> []" and
      lead: "ip = ''0'' \<or> hd ip \<noteq> CHR ''0''" and
      digits: "set (ip @ fp) \<subseteq> set ''0123456789''" and
      reads: "decimal_value (ip @ fp) = n"
      by blast
    have "?entries ! i = format_chunk (d, Finite x)"
      using i ds x(1) by simp
    then have entry: "?entries ! i =
        ''Source: '' @ source_or_unknown d @ '' (Relevance: '' @
        (if x < 0 then ''-'' else '''') @ ip @ ''.'' @ fp @ '')\<newline>'' @
        pageContent (fst (relevantDocs ! i))"
      unfolding format_chunk_text shape ds fst_conv by simp
    have named: "\<forall>m s. metadata (fst (relevantDocs ! i)) = Some m \<and> source m = Some s \<and> s \<noteq> []
        \<longrightarrow> source_or_unknown d = s"
      unfolding ds fst_conv by (simp add: source_or_unknown_def metadata_source_def)
    have unnamed: "metadata (fst (relevantDocs ! i)) = None \<or>
        (\<exists>m. metadata (fst (relevantDocs ! i)) = Some m \<and>
             (source m = None \<or> source m = Some ''''))
        \<longrightarrow> source_or_unknown d = ''unknown''"
      unfolding ds fst_conv by (auto simp: source_or_unknown_def metadata_source_def)
    have score: "snd (relevantDocs ! i) = Finite x"
      using ds x(1) by simp
    from entry named unnamed score lo hi len ne lead digits reads
    show "\<exists>shown x n ip fp.
               ?entries ! i =
                 ''Source: '' @ shown @ '' (Relevance: '' @
                 (if x < 0 then ''-'' else '''') @ ip @ ''.'' @ fp @ '')\<newline>'' @
                 pageContent (fst (relevantDocs ! i)) \<and>
               (\<forall>m s. metadata (fst (relevantDocs ! i)) = Some m \<and> source m = Some s \<and> s \<noteq> []
                   \<longrightarrow> shown = s) \<and>
               (metadata (fst (relevantDocs ! i)) = None \<or>
                (\<exists>m. metadata (fst (relevantDocs ! i)) = Some m \<and>
                     (source m = None \<or> source m = Some ''''))
                   \<longrightarrow> shown = ''unknown'') \<and>
               snd (relevantDocs ! i) = Finite x \<and>
               of_int n \<le> 1000 * \<bar>x\<bar> + 1 / 2 \<and> 1000 * \<bar>x\<bar> + 1 / 2 < of_int n + 1 \<and>
               length fp = 3 \<and> ip \<noteq> [] \<and> (ip = ''0'' \<or> hd ip \<noteq> CHR ''0'') \<and>
               set (ip @ fp) \<subseteq> set ''0123456789'' \<and>
               decimal_value (ip @ fp) = n"
      by - (intro exI [of _ "source_or_unknown d"] exI [of _ x] exI [of _ n] exI [of _ ip]
              exI [of _ fp] conjI; assumption)
  qed
  have one: "formatContext (Docs [(doc, score)]) = format_chunk (doc, score)" for doc score
    by simp
  have src: "source_or_unknown
      \<lparr>pageContent = content, metadata = Some \<lparr>source = Some ''otel-docs''\<rparr>\<rparr> = ''otel-docs''"
    by (simp add: source_or_unknown_def metadata_source_def)
  show "formatContext
           (Docs [(\<lparr>pageContent = content, metadata = Some \<lparr>source = Some ''otel-docs''\<rparr>\<rparr>,
                   Finite (7836263351624663 / 9007199254740992))]) =
           ''Source: otel-docs (Relevance: 0.870)\<newline>'' @ content"
    unfolding one format_chunk_text src toFixed3_double_087 by simp
  show "formatContext
           (Docs [(\<lparr>pageContent = content, metadata = Some \<lparr>source = Some ''otel-docs''\<rparr>\<rparr>,
                   Finite (87 / 100))]) =
           ''Source: otel-docs (Relevance: 0.870)\<newline>'' @ content"
    unfolding one format_chunk_text src toFixed3_decimal_087 by simp
qed

text \<open>The scenario's chunk, alone in the result.\<close>

theorem formatContext_layout_witness:
  "[otel_chunk] \<noteq> [] \<and>
   (\<exists>x. snd otel_chunk = Finite x \<and> \<bar>x\<bar> < 10 ^ 21) \<and>
   formatContext (Docs [otel_chunk]) =
     ''Source: otel-docs (Relevance: 0.870)\<newline>Use NodeSDK to start tracing.'' \<and>
   (\<exists>entries.
      length entries = length [otel_chunk] \<and>
      formatContext (Docs [otel_chunk]) =
        hd entries @ concat (map (\<lambda>e. ''\<newline>\<newline>---\<newline>\<newline>'' @ e) (tl entries)))"
proof -
  have h1: "[otel_chunk] \<noteq> []"
    by simp
  have x: "\<exists>x. snd otel_chunk = Finite x \<and> \<bar>x\<bar> < 10 ^ 21"
  proof (intro exI [of _ "7836263351624663 / 9007199254740992"] conjI)
    show "snd otel_chunk = Finite (7836263351624663 / 9007199254740992)"
      by (simp add: otel_chunk_def)
    show "\<bar>7836263351624663 / 9007199254740992 :: rat\<bar> < 10 ^ 21"
      by simp
  qed
  then have h2: "\<forall>c \<in> set [otel_chunk]. \<exists>x. snd c = Finite x \<and> \<bar>x\<bar> < 10 ^ 21"
    by simp
  note inst = formatContext_layout [OF h1 h2, of "''Use NodeSDK to start tracing.''"]
  from inst have a: "formatContext (Docs [otel_chunk]) =
      ''Source: otel-docs (Relevance: 0.870)\<newline>Use NodeSDK to start tracing.''"
    unfolding otel_chunk_def by simp
  from inst have b: "\<exists>entries.
      length entries = length [otel_chunk] \<and>
      formatContext (Docs [otel_chunk]) =
        hd entries @ concat (map (\<lambda>e. ''\<newline>\<newline>---\<newline>\<newline>'' @ e) (tl entries))"
    by blast
  from h1 x a b show ?thesis
    by (intro conjI)
qed

section \<open>The extracted sources\<close>

lemma add_source_cases:
  "add_source acc c =
     (if \<exists>s. metadata_source (fst c) = Some s \<and> s \<noteq> [] \<and> s \<notin> set acc
      then acc @ [the (metadata_source (fst c))] else acc)"
  by (auto simp: add_source_def set_add_def split: option.splits)

lemma set_foldl_add_source:
  "set (foldl add_source acc ds) =
     set acc \<union> {s. s \<noteq> [] \<and> (\<exists>c \<in> set ds. metadata_source (fst c) = Some s)}"
proof (induction ds arbitrary: acc)
  case Nil
  then show ?case by simp
next
  case (Cons c ds)
  show ?case
    unfolding foldl_Cons Cons.IH by (auto simp: add_source_cases)
qed

lemma distinct_foldl_add_source:
  "distinct acc \<Longrightarrow> distinct (foldl add_source acc ds)"
proof (induction ds arbitrary: acc)
  case Nil
  then show ?case by simp
next
  case (Cons c ds)
  have "distinct (add_source acc c)"
    using Cons.prems by (auto simp: add_source_cases)
  then show ?case
    by (simp add: Cons.IH)
qed

lemma takeWhile_stops:
  "\<exists>x \<in> set xs. \<not> P x \<Longrightarrow> length (takeWhile P xs) < length xs"
  by (induction xs) auto

lemma first_seen_bound:
  "\<exists>c \<in> set ds. metadata_source (fst c) = Some s \<Longrightarrow> first_seen ds s < length ds"
  unfolding first_seen_def by (rule takeWhile_stops) simp

lemma first_seen_append_old:
  assumes "\<exists>c \<in> set ds. metadata_source (fst c) = Some s"
  shows "first_seen (ds @ rest) s = first_seen ds s"
proof -
  from assms obtain c where "c \<in> set ds" "\<not> metadata_source (fst c) \<noteq> Some s"
    by auto
  then show ?thesis
    unfolding first_seen_def by (simp add: takeWhile_append1)
qed

lemma first_seen_append_new:
  assumes "\<forall>c \<in> set ds. metadata_source (fst c) \<noteq> Some s"
    and "metadata_source (fst c) = Some s"
  shows "first_seen (ds @ [c]) s = length ds"
  using assms unfolding first_seen_def by (simp add: takeWhile_append2)

lemma foldl_add_source_order:
  "sorted_wrt (\<lambda>a b. first_seen ds a < first_seen ds b) (foldl add_source [] ds)"
proof (induction ds rule: rev_induct)
  case Nil
  then show ?case by simp
next
  case (snoc c ds)
  let ?S = "foldl add_source [] ds"
  have mem: "\<exists>x \<in> set ds. metadata_source (fst x) = Some a" if "a \<in> set ?S" for a
    using that by (simp add: set_foldl_add_source)
  have same: "first_seen (ds @ [c]) a = first_seen ds a" if "a \<in> set ?S" for a
    using mem [OF that] by (rule first_seen_append_old)
  have old: "sorted_wrt (\<lambda>a b. first_seen (ds @ [c]) a < first_seen (ds @ [c]) b) ?S"
    using snoc.IH by (rule sorted_wrt_mono_rel [rotated]) (simp add: same)
  show ?case
  proof (cases "\<exists>s. metadata_source (fst c) = Some s \<and> s \<noteq> [] \<and> s \<notin> set ?S")
    case False
    then have "foldl add_source [] (ds @ [c]) = ?S"
      by (simp add: add_source_cases)
    with old show ?thesis by simp
  next
    case True
    then obtain t where t: "metadata_source (fst c) = Some t" "t \<noteq> []" "t \<notin> set ?S"
      by blast
    then have step: "foldl add_source [] (ds @ [c]) = ?S @ [t]"
      by (auto simp: add_source_cases)
    have fresh: "\<forall>x \<in> set ds. metadata_source (fst x) \<noteq> Some t"
      using t(2,3) by (auto simp: set_foldl_add_source)
    have last: "first_seen (ds @ [c]) t = length ds"
      using fresh t(1) by (rule first_seen_append_new)
    have "first_seen (ds @ [c]) a < first_seen (ds @ [c]) t" if "a \<in> set ?S" for a
      using that same [OF that] first_seen_bound [OF mem [OF that]] last by simp
    with old show ?thesis
      unfolding step by (simp add: sorted_wrt_append)
  qed
qed

section \<open>What a successful request went through\<close>

lemma shape_result_Docs:
  "shape_result e q p (Docs ds) reply =
     Inr (JObject
       [(''response'', JString reply),
        (''context'', JObject
           [(''documentsUsed'', JNumber (Finite (of_nat (length ds)))),
            (''sources'', JArray (map JString (foldl add_source [] ds))),
            (''relevanceScores'', JArray (map score_entry ds))]),
        (''metadata'', JObject
           [(''question'', JString q),
            (''provider'', provider_label (providers e) p),
            (''timestamp'', JString (now e))])])"
  by (simp add: shape_result_def)

lemma shape_result_absent:
  "shape_result e q p DocsNull reply =
     Inl (TypeError ''Cannot read properties of null (reading 'length')'')"
  "shape_result e q p DocsUndefined reply =
     Inl (TypeError ''Cannot read properties of undefined (reading 'length')'')"
  by (simp_all add: shape_result_def)

lemma generateResponse_success:
  assumes "generateResponse e q p k = (tr, Inr g)"
  shows "\<exists>llm ds reply.
           getProvider (providers e) (default_name e)
             (case p of None \<Rightarrow> ArgNull | Some n \<Rightarrow> ArgString n) = Inr llm \<and>
           similaritySearchWithScore e q k = Inr (Docs ds) \<and>
           invoke e llm (formatContext (Docs ds)) q = Inr reply \<and>
           tr = [Searched q k (Inr (Docs ds)),
                 Invoked llm (formatContext (Docs ds)) q (Inr reply)] \<and>
           shape_result e q p (Docs ds) reply = Inr g"
proof -
  from assms obtain llm where llm:
    "getProvider (providers e) (default_name e)
       (case p of None \<Rightarrow> ArgNull | Some n \<Rightarrow> ArgString n) = Inr llm"
    by (cases "getProvider (providers e) (default_name e)
                 (case p of None \<Rightarrow> ArgNull | Some n \<Rightarrow> ArgString n)")
       (simp_all add: generateResponse_def)
  from assms llm obtain docs where docs: "similaritySearchWithScore e q k = Inr docs"
    by (cases "similaritySearchWithScore e q k") (simp_all add: generateResponse_def Let_def)
  from assms llm docs obtain reply where reply_eq: "invoke e llm (formatContext docs) q = Inr reply"
    by (cases "invoke e llm (formatContext docs) q") (simp_all add: generateResponse_def Let_def)
  from assms llm docs reply_eq have tr:
    "tr = [Searched q k (Inr docs), Invoked llm (formatContext docs) q (Inr reply)]"
    and g: "shape_result e q p docs reply = Inr g"
    by (simp_all add: generateResponse_def Let_def)
  from g obtain ds where "docs = Docs ds"
    by (cases docs) (simp_all add: shape_result_absent)
  with llm docs reply_eq tr g show ?thesis
    by blast
qed

lemma askQuestion_success:
  assumes "snd (askQuestion e q opts) = Inr r"
  shows "\<exists>g. generateResponse e q (provider opts)
                 (case maxContextDocs opts of None \<Rightarrow> 5 | Some n \<Rightarrow> n) =
               (fst (askQuestion e q opts), Inr g) \<and>
             r = (if includeContext opts = Some True then g
                  else JObject
                     [(''response'', get_prop g ''response''),
                      (''sources'', get_prop (get_prop g ''context'') ''sources''),
                      (''metadata'', JObject
                         [(''provider'', get_prop (get_prop g ''metadata'') ''provider''),
                          (''timestamp'',
                             get_prop (get_prop g ''metadata'') ''timestamp'')])])"
proof -
  let ?k = "case maxContextDocs opts of None \<Rightarrow> 5 | Some n \<Rightarrow> n"
  obtain tr res where gen: "generateResponse e q (provider opts) ?k = (tr, res)"
    by (cases "generateResponse e q (provider opts) ?k")
  show ?thesis
  proof (cases res)
    case (Inl err)
    with gen assms show ?thesis
      by (simp add: askQuestion_def Let_def)
  next
    case (Inr g)
    with gen assms show ?thesis
      by (cases "includeContext opts")
         (auto simp: askQuestion_def Let_def split: if_splits)
  qed
qed

text \<open>
  C1, with the guard of \<^verbatim>\<open>extractSources\<close> taken into account. For the chunk list a
  successful \<^verbatim>\<open>askQuestion\<close> retrieved, the returned \<^verbatim>\<open>sources\<close> (at the top of the
  simplified result, inside \<^verbatim>\<open>context\<close> of the full one) hold each distinct non-empty
  source value of the chunks exactly once, in the order in which the values are first seen
  in the chunks, and nothing that is not the source of a retrieved chunk. Chunks whose
  source is missing or empty contribute nothing.
\<close>

theorem askQuestion_sources_first_seen:
  assumes "snd (askQuestion e q opts) = Inr r"
    and "Searched q k (Inr (Docs ds)) \<in> set (fst (askQuestion e q opts))"
  shows "\<exists>S. (if includeContext opts = Some True
               then get_prop (get_prop r ''context'') ''sources''
               else get_prop r ''sources'') = JArray (map JString S) \<and>
              distinct S \<and>
              set S = {s. s \<noteq> [] \<and> (\<exists>c \<in> set ds. metadata_source (fst c) = Some s)} \<and>
              sorted_wrt (\<lambda>a b. first_seen ds a < first_seen ds b) S"
proof -
  from askQuestion_success [OF assms(1)] obtain g where
    gen: "generateResponse e q (provider opts)
            (case maxContextDocs opts of None \<Rightarrow> 5 | Some n \<Rightarrow> n) =
          (fst (askQuestion e q opts), Inr g)" and
    r: "r = (if includeContext opts = Some True then g
             else JObject
                [(''response'', get_prop g ''response''),
                 (''sources'', get_prop (get_prop g ''context'') ''sources''),
                 (''metadata'', JObject
                    [(''provider'', get_prop (get_prop g ''metadata'') ''provider''),
                     (''timestamp'', get_prop (get_prop g ''metadata'') ''timestamp'')])])"
    by blast
  from generateResponse_success [OF gen] obtain llm ds' reply where
    tr: "fst (askQuestion e q opts) =
           [Searched q (case maxContextDocs opts of None \<Rightarrow> 5 | Some n \<Rightarrow> n) (Inr (Docs ds')),
            Invoked llm (formatContext (Docs ds')) q (Inr reply)]" and
    g: "shape_result e q (provider opts) (Docs ds') reply = Inr g"
    by blast
  from assms(2) tr have "ds' = ds"
    by simp
  with g have src: "get_prop (get_prop g ''context'') ''sources'' =
      JArray (map JString (foldl add_source [] ds))"
    by (auto simp: shape_result_Docs)
  let ?S = "foldl add_source [] ds"
  have "(if includeContext opts = Some True
         then get_prop (get_prop r ''context'') ''sources''
         else get_prop r ''sources'') = JArray (map JString ?S)"
    using r src by simp
  moreover have "distinct ?S"
    by (simp add: distinct_foldl_add_source)
  moreover have "set ?S = {s. s \<noteq> [] \<and> (\<exists>c \<in> set ds. metadata_source (fst c) = Some s)}"
    by (simp add: set_foldl_add_source)
  moreover have "sorted_wrt (\<lambda>a b. first_seen ds a < first_seen ds b) ?S"
    by (rule foldl_add_source_order)
  ultimately show ?thesis
    by blast
qed

lemma sample_registry: "initializeProviders sample_config = Inr (providers (sample_env found))"
  by (simp add: initializeProviders_def sample_config_def sample_env_def truthy_def)

lemma sample_getProvider:
  "getProvider (providers (sample_env found)) (default_name (sample_env found))
     (ArgString ''openai'') = Inr ChatOpenAI"
  by (simp add: getProvider_def sample_env_def)

lemma sample_generateResponse:
  "generateResponse (sample_env (Inr (Docs ds))) q (Some ''openai'') k =
     ([Searched q k (Inr (Docs ds)),
       Invoked ChatOpenAI (formatContext (Docs ds)) q (Inr ''Call sdk.start().'')],
      Inr (JObject
       [(''response'', JString ''Call sdk.start().''),
        (''context'', JObject
           [(''documentsUsed'', JNumber (Finite (of_nat (length ds)))),
            (''sources'', JArray (map JString (foldl add_source [] ds))),
            (''relevanceScores'', JArray (map score_entry ds))]),
        (''metadata'', JObject
           [(''question'', JString q),
            (''provider'', JString ''openai''),
            (''timestamp'', JString ''2024-01-15T10:30:00.000Z'')])]))"
proof -
  have a: "similaritySearchWithScore (sample_env (Inr (Docs ds))) q k = Inr (Docs ds)"
    and b: "invoke (sample_env (Inr (Docs ds))) ChatOpenAI (formatContext (Docs ds)) q =
              Inr ''Call sdk.start().''"
    and c: "now (sample_env (Inr (Docs ds))) = ''2024-01-15T10:30:00.000Z''"
    and d: "provider_label (providers (sample_env (Inr (Docs ds)))) (Some ''openai'') =
              JString ''openai''"
    by (simp_all add: sample_env_def provider_label_def)
  show ?thesis
    unfolding generateResponse_def Let_def option.case sample_getProvider sum.case a b
      shape_result_Docs c d
    by (rule refl)
qed

lemma sample_simplified:
  "askQuestion (sample_env (Inr (Docs ds))) q (with_openai False) =
     ([Searched q 5 (Inr (Docs ds)),
       Invoked ChatOpenAI (formatContext (Docs ds)) q (Inr ''Call sdk.start().'')],
      Inr (JObject
       [(''response'', JString ''Call sdk.start().''),
        (''sources'', JArray (map JString (foldl add_source [] ds))),
        (''metadata'', JObject
           [(''provider'', JString ''openai''),
            (''timestamp'', JString ''2024-01-15T10:30:00.000Z'')])]))"
  by (simp add: askQuestion_def with_openai_def sample_generateResponse)

lemma sample_full:
  "askQuestion (sample_env (Inr (Docs ds))) q (with_openai True) =
     generateResponse (sample_env (Inr (Docs ds))) q (Some ''openai'') 5"
  by (simp add: askQuestion_def with_openai_def sample_generateResponse)

lemma sources_blank: "foldl add_source [] [blank_source_chunk] = []"
  by (simp add: add_source_def blank_source_chunk_def metadata_source_def)

lemma sources_mixed: "foldl add_source [] mixed_chunks = [''otel-docs'']"
  by (simp add: mixed_chunks_def add_source_def set_add_def metadata_source_def
        otel_chunk_def blank_source_chunk_def unlabelled_chunk_def)

text \<open>
  C1 as stated fails on a chunk whose source is the empty string: the value is the source
  of a retrieved chunk, and the returned \<^verbatim>\<open>sources\<close> are empty.
\<close>

theorem empty_source_dropped_counterexample:
  "metadata_source (fst blank_source_chunk) = Some '''' \<and>
   snd (askQuestion (sample_env (Inr (Docs [blank_source_chunk]))) ''What is a span?''
          (with_openai False)) =
     Inr (JObject
       [(''response'', JString ''Call sdk.start().''),
        (''sources'', JArray []),
        (''metadata'', JObject
           [(''provider'', JString ''openai''),
            (''timestamp'', JString ''2024-01-15T10:30:00.000Z'')])])"
proof -
  have a: "metadata_source (fst blank_source_chunk) = Some ''''"
    by (simp add: blank_source_chunk_def metadata_source_def)
  have b: "snd (askQuestion (sample_env (Inr (Docs [blank_source_chunk]))) ''What is a span?''
          (with_openai False)) =
     Inr (JObject
       [(''response'', JString ''Call sdk.start().''),
        (''sources'', JArray []),
        (''metadata'', JObject
           [(''provider'', JString ''openai''),
            (''timestamp'', JString ''2024-01-15T10:30:00.000Z'')])])"
    unfolding sample_simplified sources_blank by simp
  from a b show ?thesis
    by (rule conjI)
qed

theorem askQuestion_sources_first_seen_witness:
  "snd (askQuestion (sample_env (Inr (Docs mixed_chunks))) ''How do I start tracing?''
          (with_openai False)) =
     Inr (JObject
       [(''response'', JString ''Call sdk.start().''),
        (''sources'', JArray [JString ''otel-docs'']),
        (''metadata'', JObject
           [(''provider'', JString ''openai''),
            (''timestamp'', JString ''2024-01-15T10:30:00.000Z'')])]) \<and>
   Searched ''How do I start tracing?'' 5 (Inr (Docs mixed_chunks))
     \<in> set (fst (askQuestion (sample_env (Inr (Docs mixed_chunks)))
                  ''How do I start tracing?'' (with_openai False))) \<and>
   (\<exists>S. JArray [JString ''otel-docs''] = JArray (map JString S) \<and>
        distinct S \<and>
        set S = {s. s \<noteq> [] \<and> (\<exists>c \<in> set mixed_chunks. metadata_source (fst c) = Some s)} \<and>
        sorted_wrt (\<lambda>a b. first_seen mixed_chunks a < first_seen mixed_chunks b) S)"
proof -
  let ?e = "sample_env (Inr (Docs mixed_chunks))"
  let ?r = "JObject
       [(''response'', JString ''Call sdk.start().''),
        (''sources'', JArray [JString ''otel-docs'']),
        (''metadata'', JObject
           [(''provider'', JString ''openai''),
            (''timestamp'', JString ''2024-01-15T10:30:00.000Z'')])]"
  have h1: "snd (askQuestion ?e ''How do I start tracing?'' (with_openai False)) = Inr ?r"
    unfolding sample_simplified sources_mixed by simp
  have h2: "Searched ''How do I start tracing?'' 5 (Inr (Docs mixed_chunks))
      \<in> set (fst (askQuestion ?e ''How do I start tracing?'' (with_openai False)))"
    by (simp add: sample_simplified)
  have o: "includeContext (with_openai False) \<noteq> Some True"
    by (simp add: with_openai_def)
  from askQuestion_sources_first_seen [OF h1 h2] o
  have "\<exists>S. JArray [JString ''otel-docs''] = JArray (map JString S) \<and>
        distinct S \<and>
        set S = {s. s \<noteq> [] \<and> (\<exists>c \<in> set mixed_chunks. metadata_source (fst c) = Some s)} \<and>
        sorted_wrt (\<lambda>a b. first_seen mixed_chunks a < first_seen mixed_chunks b) S"
    by simp
  with h1 h2 show ?thesis
    by blast
qed

section \<open>Chunks without a source\<close>

lemma add_source_missing: "metadata_source (fst c) = None \<Longrightarrow> add_source acc c = acc"
  by (simp add: add_source_def)

lemma source_or_unknown_missing: "metadata_source doc = None \<Longrightarrow> source_or_unknown doc = ''unknown''"
  by (simp add: source_or_unknown_def)

text \<open>
  C2 as stated fails on a chunk stored without metadata: its source is missing, and the
  \<^verbatim>\<open>sources\<close> computed for it are empty, the string \<^verbatim>\<open>unknown\<close> not among them.
\<close>

theorem missing_source_not_unknown_counterexample:
  "metadata_source (fst unlabelled_chunk) = None \<and>
   extractSources (Docs [unlabelled_chunk]) = Inr [] \<and>
   snd (askQuestion (sample_env (Inr (Docs [unlabelled_chunk]))) ''What is an exporter?''
          (with_openai False)) =
     Inr (JObject
       [(''response'', JString ''Call sdk.start().''),
        (''sources'', JArray []),
        (''metadata'', JObject
           [(''provider'', JString ''openai''),
            (''timestamp'', JString ''2024-01-15T10:30:00.000Z'')])])"
proof -
  have a: "metadata_source (fst unlabelled_chunk) = None"
    by (simp add: unlabelled_chunk_def metadata_source_def)
  have s: "foldl add_source [] [unlabelled_chunk] = []"
    by (simp add: add_source_missing [OF a])
  have b: "extractSources (Docs [unlabelled_chunk]) = Inr []"
    unfolding extractSources.simps s by (rule refl)
  have c: "snd (askQuestion (sample_env (Inr (Docs [unlabelled_chunk]))) ''What is an exporter?''
          (with_openai False)) =
     Inr (JObject
       [(''response'', JString ''Call sdk.start().''),
        (''sources'', JArray []),
        (''metadata'', JObject
           [(''provider'', JString ''openai''),
            (''timestamp'', JString ''2024-01-15T10:30:00.000Z'')])])"
    unfolding sample_simplified s by simp
  from a b c show ?thesis
    by (intro conjI)
qed

text \<open>
  C2, as the code has it. A retrieved chunk whose source is missing adds nothing to
  \<^verbatim>\<open>sources\<close>: they are the sources of the other chunks. The string \<^verbatim>\<open>unknown\<close> stands
  for the missing source in that chunk's entry of \<^verbatim>\<open>relevanceScores\<close> and in its header of
  the formatted context.
\<close>

theorem missing_source_skipped:
  assumes "metadata_source doc = None"
  shows "extractSources (Docs (before @ (doc, score) # after)) =
           extractSources (Docs (before @ after)) \<and>
         relevanceScores (Docs (before @ (doc, score) # after)) =
           Inr (JArray (map score_entry before @
                        JObject [(''source'', JString ''unknown''), (''score'', JNumber score)] #
                        map score_entry after)) \<and>
         formatContext (Docs [(doc, score)]) =
           ''Source: unknown (Relevance: '' @ toFixed3 score @ '')\<newline>'' @ pageContent doc"
proof (intro conjI)
  have "add_source acc (doc, score) = acc" for acc
    using assms by (simp add: add_source_missing)
  then show "extractSources (Docs (before @ (doc, score) # after)) =
      extractSources (Docs (before @ after))"
    by simp
  show "relevanceScores (Docs (before @ (doc, score) # after)) =
      Inr (JArray (map score_entry before @
                   JObject [(''source'', JString ''unknown''), (''score'', JNumber score)] #
                   map score_entry after))"
    using assms by (simp add: score_entry_def source_or_unknown_missing)
  show "formatContext (Docs [(doc, score)]) =
      ''Source: unknown (Relevance: '' @ toFixed3 score @ '')\<newline>'' @ pageContent doc"
    using assms by (simp add: format_chunk_text source_or_unknown_missing)
qed

theorem missing_source_skipped_witness:
  "metadata_source (fst unlabelled_chunk) = None \<and>
   extractSources (Docs ([otel_chunk] @ (fst unlabelled_chunk, Finite (1 / 4)) # [otel_chunk])) =
     Inr [''otel-docs''] \<and>
   relevanceScores (Docs ([] @ (fst unlabelled_chunk, Finite (1 / 4)) # [])) =
     Inr (JArray [JObject [(''source'', JString ''unknown''), (''score'', JNumber (Finite (1 / 4)))]])"
proof -
  have h: "metadata_source (fst unlabelled_chunk) = None"
    by (simp add: unlabelled_chunk_def metadata_source_def)
  have "extractSources (Docs ([otel_chunk] @ [otel_chunk])) = Inr [''otel-docs'']"
    by (simp add: add_source_def set_add_def metadata_source_def otel_chunk_def)
  with missing_source_skipped [OF h, of "[otel_chunk]" "Finite (1 / 4)" "[otel_chunk]"]
  have a: "extractSources (Docs ([otel_chunk] @ (fst unlabelled_chunk, Finite (1 / 4)) # [otel_chunk])) =
      Inr [''otel-docs'']"
    by simp
  from missing_source_skipped [OF h, of "[]" "Finite (1 / 4)" "[]"]
  have b: "relevanceScores (Docs ([] @ (fst unlabelled_chunk, Finite (1 / 4)) # [])) =
      Inr (JArray [JObject [(''source'', JString ''unknown''), (''score'', JNumber (Finite (1 / 4)))]])"
    by simp
  from h a b show ?thesis
    by (intro conjI)
qed

section \<open>Full and simplified results\<close>

lemma sample_otel_answer:
  "askQuestion (sample_env (Inr (Docs [otel_chunk]))) ''How do I start tracing?''
     (with_openai True) =
   ([Searched ''How do I start tracing?'' 5 (Inr (Docs [otel_chunk])),
     Invoked ChatOpenAI (formatContext (Docs [otel_chunk])) ''How do I start tracing?''
       (Inr ''Call sdk.start().'')],
    Inr otel_answer)"
proof -
  have s: "foldl add_source [] [otel_chunk] = [''otel-docs'']"
    by (simp add: add_source_def set_add_def metadata_source_def otel_chunk_def)
  have r: "map score_entry [otel_chunk] =
      [JObject [(''source'', JString ''otel-docs''),
                (''score'', JNumber (Finite (7836263351624663 / 9007199254740992)))]]"
    by (simp add: score_entry_def source_or_unknown_def metadata_source_def otel_chunk_def)
  show ?thesis
    unfolding sample_full sample_generateResponse s r otel_answer_def by simp
qed




section \<open>Looking a provider up\<close>

lemma sublist_prepend: "sublist x ys \<Longrightarrow> sublist x (ps @ ys)"
proof -
  assume "sublist x ys"
  then obtain a b where "ys = a @ x @ b"
    unfolding sublist_def by blast
  then have "ps @ ys = (ps @ a) @ x @ b"
    by simp
  then show ?thesis
    unfolding sublist_def by blast
qed

lemma sublist_join:
  "x \<in> set xs \<Longrightarrow> sublist x (join xs sep)"
proof (induction xs sep rule: join.induct)
  case (1 sep)
  then show ?case by simp
next
  case (2 y sep)
  then show ?case by simp
next
  case (3 y z zs sep)
  show ?case
  proof (cases "x = y")
    case True
    then show ?thesis
      by (simp add: sublist_append_rightI)
  next
    case False
    with 3 have "sublist x (join (z # zs) sep)"
      by simp
    then have "sublist x ((y @ sep) @ join (z # zs) sep)"
      by (rule sublist_prepend)
    then show ?thesis
      by simp
  qed
qed

lemma map_of_absent: "n \<notin> set (getAvailableProviders ps) \<Longrightarrow> map_of ps n = None"
  by (simp add: getAvailableProviders_def map_of_eq_None_iff)

lemma two_providers_configured:
  "initializeProviders (sample_config\<lparr>anthropic_apiKey := Some ''sk-ant-test''\<rparr>) =
     Inr two_providers"
  by (simp add: initializeProviders_def sample_config_def two_providers_def truthy_def)

text \<open>
  C8. For a name that is not registered, \<^verbatim>\<open>getProvider\<close> fails with an error whose
  message ends with the registered names, joined by commas in registration order, so
  every registered name occurs in it. With the argument left out it behaves as for the
  configured default name: it returns the default provider when that one is registered,
  and fails in the same way when it is not.
\<close>

theorem getProvider_unknown_name:
  assumes "n \<notin> set (getAvailableProviders ps)"
  shows "(\<exists>msg. getProvider ps dflt (ArgString n) = Inl (Error msg) \<and>
               msg = ''LLM provider '' @ [CHR 0x27] @ n @ [CHR 0x27] @
                     '' not available. Available providers: '' @
                     join (getAvailableProviders ps) '', '' \<and>
               (\<forall>name \<in> set (getAvailableProviders ps). sublist name msg)) \<and>
         getProvider ps dflt ArgUndefined = getProvider ps dflt (ArgString dflt) \<and>
         (\<forall>c. map_of ps dflt = Some c \<longrightarrow> getProvider ps dflt ArgUndefined = Inr c)"
proof (intro conjI)
  let ?msg = "''LLM provider '' @ [CHR 0x27] @ n @ [CHR 0x27] @
              '' not available. Available providers: '' @
              join (getAvailableProviders ps) '', ''"
  have fails: "getProvider ps dflt (ArgString n) = Inl (Error ?msg)"
    using map_of_absent [OF assms] by (simp add: getProvider_def getAvailableProviders_def)
  have listed: "sublist name ?msg" if "name \<in> set (getAvailableProviders ps)" for name
  proof -
    have "sublist name (join (getAvailableProviders ps) '', '')"
      using that by (rule sublist_join)
    then have "sublist name ((''LLM provider '' @ [CHR 0x27] @ n @ [CHR 0x27] @
        '' not available. Available providers: '') @ join (getAvailableProviders ps) '', '')"
      by (rule sublist_prepend)
    then show ?thesis
      by simp
  qed
  from fails listed show "\<exists>msg. getProvider ps dflt (ArgString n) = Inl (Error msg) \<and>
               msg = ''LLM provider '' @ [CHR 0x27] @ n @ [CHR 0x27] @
                     '' not available. Available providers: '' @
                     join (getAvailableProviders ps) '', '' \<and>
               (\<forall>name \<in> set (getAvailableProviders ps). sublist name msg)"
    by blast
  show "getProvider ps dflt ArgUndefined = getProvider ps dflt (ArgString dflt)"
    by (simp add: getProvider_def)
  show "\<forall>c. map_of ps dflt = Some c \<longrightarrow> getProvider ps dflt ArgUndefined = Inr c"
    by (simp add: getProvider_def)
qed

theorem getProvider_unknown_name_witness:
  "''nonexistent-name'' \<notin> set (getAvailableProviders two_providers) \<and>
   getProvider two_providers ''anthropic'' (ArgString ''nonexistent-name'') =
     Inl (Error ''LLM provider 'nonexistent-name' not available. Available providers: openai, anthropic'') \<and>
   sublist ''openai''
     ''LLM provider 'nonexistent-name' not available. Available providers: openai, anthropic'' \<and>
   sublist ''anthropic''
     ''LLM provider 'nonexistent-name' not available. Available providers: openai, anthropic'' \<and>
   map_of two_providers ''anthropic'' = Some ChatAnthropic \<and>
   getProvider two_providers ''anthropic'' ArgUndefined = Inr ChatAnthropic"
proof -
  have names: "getAvailableProviders two_providers = [''openai'', ''anthropic'']"
    by (simp add: getAvailableProviders_def two_providers_def)
  have h: "''nonexistent-name'' \<notin> set (getAvailableProviders two_providers)"
    unfolding names by simp
  have m: "''LLM provider '' @ [CHR 0x27] @ ''nonexistent-name'' @ [CHR 0x27] @
           '' not available. Available providers: '' @
           join (getAvailableProviders two_providers) '', '' =
           ''LLM provider 'nonexistent-name' not available. Available providers: openai, anthropic''"
    unfolding names by simp
  have d: "map_of two_providers ''anthropic'' = Some ChatAnthropic"
    by (simp add: two_providers_def)
  note inst = getProvider_unknown_name [OF h, of "''anthropic''"]
  from inst have a: "getProvider two_providers ''anthropic'' (ArgString ''nonexistent-name'') =
      Inl (Error ''LLM provider 'nonexistent-name' not available. Available providers: openai, anthropic'')"
    unfolding m by blast
  from inst have l: "\<forall>name \<in> set (getAvailableProviders two_providers).
      sublist name ''LLM provider 'nonexistent-name' not available. Available providers: openai, anthropic''"
    unfolding m by blast
  from l have l1: "sublist ''openai''
      ''LLM provider 'nonexistent-name' not available. Available providers: openai, anthropic''"
    and l2: "sublist ''anthropic''
      ''LLM provider 'nonexistent-name' not available. Available providers: openai, anthropic''"
    unfolding names by simp_all
  from inst d have u: "getProvider two_providers ''anthropic'' ArgUndefined = Inr ChatAnthropic"
    by blast
  from h a l1 l2 d u show ?thesis
    by (intro conjI)
qed

section \<open>The course of a request\<close>

text \<open>The three ways \<^verbatim>\<open>generateResponse\<close> can go, with the calls made in each.\<close>

lemma generateResponse_cases:
  fixes e q p k
  defines "arg \<equiv> (case p of None \<Rightarrow> ArgNull | Some n \<Rightarrow> ArgString n)"
  obtains
    (no_provider) err where
      "getProvider (providers e) (default_name e) arg = Inl err"
      "generateResponse e q p k = ([], Inl err)"
  | (search_failed) llm err where
      "getProvider (providers e) (default_name e) arg = Inr llm"
      "similaritySearchWithScore e q k = Inl err"
      "generateResponse e q p k = ([Searched q k (Inl err)], Inl err)"
  | (generated) llm docs where
      "getProvider (providers e) (default_name e) arg = Inr llm"
      "similaritySearchWithScore e q k = Inr docs"
      "generateResponse e q p k =
         ([Searched q k (Inr docs),
           Invoked llm (formatContext docs) q (invoke e llm (formatContext docs) q)],
          (case invoke e llm (formatContext docs) q of
             Inl err \<Rightarrow> Inl err
           | Inr reply \<Rightarrow> shape_result e q p docs reply))"
proof (cases "getProvider (providers e) (default_name e) arg")
  case (Inl err)
  then have "generateResponse e q p k = ([], Inl err)"
    by (simp add: generateResponse_def arg_def)
  with Inl show ?thesis
    by (rule no_provider)
next
  case (Inr llm)
  show ?thesis
  proof (cases "similaritySearchWithScore e q k")
    case (Inl err)
    with Inr have "generateResponse e q p k = ([Searched q k (Inl err)], Inl err)"
      by (simp add: generateResponse_def arg_def Let_def)
    with Inr Inl show ?thesis
      by (rule search_failed)
  next
    case docs: (Inr docs)
    with Inr have "generateResponse e q p k =
         ([Searched q k (Inr docs),
           Invoked llm (formatContext docs) q (invoke e llm (formatContext docs) q)],
          (case invoke e llm (formatContext docs) q of
             Inl err \<Rightarrow> Inl err
           | Inr reply \<Rightarrow> shape_result e q p docs reply))"
      by (simp add: generateResponse_def arg_def Let_def split: sum.splits)
    with Inr docs show ?thesis
      by (rule generated)
  qed
qed

lemma askQuestion_trace:
  "fst (askQuestion e q opts) =
     fst (generateResponse e q (provider opts)
            (case maxContextDocs opts of None \<Rightarrow> 5 | Some n \<Rightarrow> n))"
  by (simp add: askQuestion_def Let_def split: prod.splits sum.splits)

lemma askQuestion_failure:
  assumes "snd (generateResponse e q (provider opts)
                  (case maxContextDocs opts of None \<Rightarrow> 5 | Some n \<Rightarrow> n)) = Inl err"
  shows "snd (askQuestion e q opts) =
           Inl (Error (''Failed to generate response: '' @ message err))"
proof -
  from assms obtain tr where
    "generateResponse e q (provider opts)
       (case maxContextDocs opts of None \<Rightarrow> 5 | Some n \<Rightarrow> n) = (tr, Inl err)"
    by (cases "generateResponse e q (provider opts)
                 (case maxContextDocs opts of None \<Rightarrow> 5 | Some n \<Rightarrow> n)") simp
  then show ?thesis
    by (simp add: askQuestion_def Let_def)
qed

text \<open>
  C9 as stated fails when the store rejects the query: the message of the error that
  \<^verbatim>\<open>askQuestion\<close> raises is not the store's message, it is that message behind the
  sentence \<^verbatim>\<open>Failed to generate response: \<close>.
\<close>

theorem search_failure_message_counterexample:
  "similaritySearchWithScore (sample_env (Inl (Error ''Chroma is unreachable'')))
     ''How do I start tracing?'' 5 = Inl (Error ''Chroma is unreachable'') \<and>
   askQuestion (sample_env (Inl (Error ''Chroma is unreachable''))) ''How do I start tracing?''
     (with_openai False) =
     ([Searched ''How do I start tracing?'' 5 (Inl (Error ''Chroma is unreachable''))],
      Inl (Error ''Failed to generate response: Chroma is unreachable'')) \<and>
   ''Failed to generate response: Chroma is unreachable'' \<noteq> ''Chroma is unreachable''"
proof -
  have a: "similaritySearchWithScore (sample_env (Inl (Error ''Chroma is unreachable'')))
     ''How do I start tracing?'' 5 = Inl (Error ''Chroma is unreachable'')"
    by (simp add: sample_env_def)
  have g: "generateResponse (sample_env (Inl (Error ''Chroma is unreachable'')))
      ''How do I start tracing?'' (Some ''openai'') 5 =
      ([Searched ''How do I start tracing?'' 5 (Inl (Error ''Chroma is unreachable''))],
       Inl (Error ''Chroma is unreachable''))"
    unfolding generateResponse_def Let_def option.case sample_getProvider sum.case a
    by (rule refl)
  have b: "askQuestion (sample_env (Inl (Error ''Chroma is unreachable'')))
     ''How do I start tracing?'' (with_openai False) =
     ([Searched ''How do I start tracing?'' 5 (Inl (Error ''Chroma is unreachable''))],
      Inl (Error ''Failed to generate response: Chroma is unreachable''))"
    by (simp add: askQuestion_def with_openai_def g)
  have c: "''Failed to generate response: Chroma is unreachable'' \<noteq> ''Chroma is unreachable''"
    by simp
  from a b c show ?thesis
    by (intro conjI)
qed

text \<open>
  C9, as the code has it. When the similarity search made during \<^verbatim>\<open>askQuestion\<close> fails,
  that search is the only call made (it is not repeated and no model is invoked), and
  \<^verbatim>\<open>askQuestion\<close> raises an error, returning no result; the error's message is the
  sentence \<^verbatim>\<open>Failed to generate response: \<close> followed by the failure's own message,
  unchanged.
\<close>

theorem search_failure_wrapped:
  assumes "Searched q k (Inl err) \<in> set (fst (askQuestion e q opts))"
  shows "askQuestion e q opts =
           ([Searched q k (Inl err)],
            Inl (Error (''Failed to generate response: '' @ message err)))"
proof -
  let ?k = "case maxContextDocs opts of None \<Rightarrow> 5 | Some n \<Rightarrow> n"
  from assms have seen: "Searched q k (Inl err) \<in> set (fst (generateResponse e q (provider opts) ?k))"
    by (simp add: askQuestion_trace)
  have "generateResponse e q (provider opts) ?k = ([Searched q k (Inl err)], Inl err)"
  proof (cases e q "provider opts" ?k rule: generateResponse_cases)
    case (no_provider err')
    with seen show ?thesis by simp
  next
    case (search_failed llm err')
    with seen show ?thesis by simp
  next
    case (generated llm docs)
    with seen show ?thesis by simp
  qed
  then have "fst (generateResponse e q (provider opts) ?k) = [Searched q k (Inl err)]"
    and "snd (generateResponse e q (provider opts) ?k) = Inl err"
    by simp_all
  then have "fst (askQuestion e q opts) = [Searched q k (Inl err)]"
    and "snd (askQuestion e q opts) =
           Inl (Error (''Failed to generate response: '' @ message err))"
    by (simp_all add: askQuestion_trace askQuestion_failure)
  then show ?thesis
    by (simp add: prod_eq_iff)
qed

theorem search_failure_wrapped_witness:
  "Searched ''How do I start tracing?'' 5 (Inl (Error ''Chroma is unreachable''))
     \<in> set (fst (askQuestion (sample_env (Inl (Error ''Chroma is unreachable'')))
                  ''How do I start tracing?'' (with_openai True))) \<and>
   askQuestion (sample_env (Inl (Error ''Chroma is unreachable''))) ''How do I start tracing?''
     (with_openai True) =
     ([Searched ''How do I start tracing?'' 5 (Inl (Error ''Chroma is unreachable''))],
      Inl (Error ''Failed to generate response: Chroma is unreachable''))"
proof -
  have a: "similaritySearchWithScore (sample_env (Inl (Error ''Chroma is unreachable'')))
     ''How do I start tracing?'' 5 = Inl (Error ''Chroma is unreachable'')"
    by (simp add: sample_env_def)
  have g: "generateResponse (sample_env (Inl (Error ''Chroma is unreachable'')))
      ''How do I start tracing?'' (Some ''openai'') 5 =
      ([Searched ''How do I start tracing?'' 5 (Inl (Error ''Chroma is unreachable''))],
       Inl (Error ''Chroma is unreachable''))"
    unfolding generateResponse_def Let_def option.case sample_getProvider sum.case a
    by (rule refl)
  have h: "Searched ''How do I start tracing?'' 5 (Inl (Error ''Chroma is unreachable''))
     \<in> set (fst (askQuestion (sample_env (Inl (Error ''Chroma is unreachable'')))
                  ''How do I start tracing?'' (with_openai True)))"
    by (simp add: askQuestion_trace with_openai_def g)
  from search_failure_wrapped [OF h] h show ?thesis
    by simp
qed

section \<open>Nothing retrieved\<close>

lemma formatContext_nothing:
  "docs = DocsNull \<or> docs = DocsUndefined \<or> docs = Docs [] \<Longrightarrow>
     formatContext docs = ''No relevant context found in the knowledge base.''"
  by (auto simp: no_context_def)

lemma shape_result_empty:
  "\<exists>v. shape_result e q p (Docs []) reply = Inr v \<and> get_prop v ''response'' = JString reply"
  by (simp add: shape_result_Docs)

lemma askQuestion_response:
  assumes "snd (generateResponse e q (provider opts)
                  (case maxContextDocs opts of None \<Rightarrow> 5 | Some n \<Rightarrow> n)) = Inr g"
    and "get_prop g ''response'' = JString reply"
  shows "\<exists>v. snd (askQuestion e q opts) = Inr v \<and> get_prop v ''response'' = JString reply"
proof -
  from assms(1) obtain tr where
    "generateResponse e q (provider opts)
       (case maxContextDocs opts of None \<Rightarrow> 5 | Some n \<Rightarrow> n) = (tr, Inr g)"
    by (cases "generateResponse e q (provider opts)
                 (case maxContextDocs opts of None \<Rightarrow> 5 | Some n \<Rightarrow> n)") simp
  with assms(2) show ?thesis
    by (simp add: askQuestion_def Let_def)
qed

text \<open>
  With \<^verbatim>\<open>null\<close> in place of the list the model is invoked all the same; the request then
  fails where the result is put together, at \<^verbatim>\<open>relevantDocs.length\<close>.
\<close>

lemma sample_null_retrieval:
  "askQuestion (sample_env (Inr DocsNull)) q (with_openai False) =
     ([Searched q 5 (Inr DocsNull),
       Invoked ChatOpenAI ''No relevant context found in the knowledge base.'' q
         (Inr ''Call sdk.start().'')],
      Inl (Error ''Failed to generate response: Cannot read properties of null (reading 'length')''))"
proof -
  have a: "similaritySearchWithScore (sample_env (Inr DocsNull)) q 5 = Inr DocsNull"
    and b: "invoke (sample_env (Inr DocsNull)) ChatOpenAI (formatContext DocsNull) q =
              Inr ''Call sdk.start().''"
    by (simp_all add: sample_env_def)
  have g: "generateResponse (sample_env (Inr DocsNull)) q (Some ''openai'') 5 =
      ([Searched q 5 (Inr DocsNull),
        Invoked ChatOpenAI (formatContext DocsNull) q (Inr ''Call sdk.start().'')],
       Inl (TypeError ''Cannot read properties of null (reading 'length')''))"
    unfolding generateResponse_def Let_def option.case sample_getProvider sum.case a b
      shape_result_absent
    by (rule refl)
  show ?thesis
    by (simp add: askQuestion_def with_openai_def g no_context_def)
qed

text \<open>
  C5 as stated fails when the store answers \<^verbatim>\<open>null\<close>: the context is the sentinel and
  the model is invoked, but the request then raises an error instead of returning.
\<close>

theorem null_retrieval_raises_counterexample:
  "similaritySearchWithScore (sample_env (Inr DocsNull)) ''anything'' 5 = Inr DocsNull \<and>
   formatContext DocsNull = ''No relevant context found in the knowledge base.'' \<and>
   askQuestion (sample_env (Inr DocsNull)) ''anything'' (with_openai False) =
     ([Searched ''anything'' 5 (Inr DocsNull),
       Invoked ChatOpenAI ''No relevant context found in the knowledge base.'' ''anything''
         (Inr ''Call sdk.start().'')],
      Inl (Error ''Failed to generate response: Cannot read properties of null (reading 'length')''))"
proof -
  have a: "similaritySearchWithScore (sample_env (Inr DocsNull)) ''anything'' 5 = Inr DocsNull"
    by (simp add: sample_env_def)
  have b: "formatContext DocsNull = ''No relevant context found in the knowledge base.''"
    by (simp add: no_context_def)
  note c = sample_null_retrieval [of "''anything''"]
  from a b c show ?thesis
    by (intro conjI)
qed

text \<open>
  C5, up to the invocation of the model. When the search made during \<^verbatim>\<open>askQuestion\<close>
  returns no chunks (an empty list, \<^verbatim>\<open>null\<close> or \<^verbatim>\<open>undefined\<close>), \<^verbatim>\<open>formatContext\<close> gives
  exactly the sentinel sentence and the next thing \<^verbatim>\<open>askQuestion\<close> does is invoke the
  model with that sentence as the context: it neither stops short nor raises before. For
  the empty list, a reply of the model then comes back as the result's \<^verbatim>\<open>response\<close>.
\<close>

theorem empty_retrieval_still_generates:
  assumes "Searched q k (Inr docs) \<in> set (fst (askQuestion e q opts))"
    and "docs = DocsNull \<or> docs = DocsUndefined \<or> docs = Docs []"
  shows "formatContext docs = ''No relevant context found in the knowledge base.'' \<and>
         (\<exists>llm out.
            fst (askQuestion e q opts) =
              [Searched q k (Inr docs),
               Invoked llm ''No relevant context found in the knowledge base.'' q out] \<and>
            out = invoke e llm ''No relevant context found in the knowledge base.'' q \<and>
            (\<forall>reply. docs = Docs [] \<and> out = Inr reply \<longrightarrow>
               (\<exists>v. snd (askQuestion e q opts) = Inr v \<and>
                    get_prop v ''response'' = JString reply)))"
proof -
  let ?k = "case maxContextDocs opts of None \<Rightarrow> 5 | Some n \<Rightarrow> n"
  let ?none = "''No relevant context found in the knowledge base.''"
  have ctx: "formatContext docs = ?none"
    using assms(2) by (rule formatContext_nothing)
  from assms(1) have seen:
    "Searched q k (Inr docs) \<in> set (fst (generateResponse e q (provider opts) ?k))"
    by (simp add: askQuestion_trace)
  have "\<exists>llm. generateResponse e q (provider opts) ?k =
      ([Searched q k (Inr docs), Invoked llm ?none q (invoke e llm ?none q)],
       (case invoke e llm ?none q of
          Inl err \<Rightarrow> Inl err
        | Inr reply \<Rightarrow> shape_result e q (provider opts) docs reply))"
  proof (cases e q "provider opts" ?k rule: generateResponse_cases)
    case (no_provider err)
    with seen show ?thesis by simp
  next
    case (search_failed llm err)
    with seen show ?thesis by simp
  next
    case (generated llm docs')
    with seen have "docs' = docs" and "?k = k"
      by auto
    with generated(3) ctx show ?thesis
      by auto
  qed
  then obtain llm where gen: "generateResponse e q (provider opts) ?k =
      ([Searched q k (Inr docs), Invoked llm ?none q (invoke e llm ?none q)],
       (case invoke e llm ?none q of
          Inl err \<Rightarrow> Inl err
        | Inr reply \<Rightarrow> shape_result e q (provider opts) docs reply))"
    by blast
  have tr: "fst (askQuestion e q opts) =
      [Searched q k (Inr docs), Invoked llm ?none q (invoke e llm ?none q)]"
    by (simp add: askQuestion_trace gen)
  have ok: "\<exists>v. snd (askQuestion e q opts) = Inr v \<and> get_prop v ''response'' = JString reply"
    if "docs = Docs []" and "invoke e llm ?none q = Inr reply" for reply
  proof -
    from shape_result_empty obtain g where
      g: "shape_result e q (provider opts) (Docs []) reply = Inr g"
         "get_prop g ''response'' = JString reply"
      by blast
    with that gen have "snd (generateResponse e q (provider opts) ?k) = Inr g"
      by simp
    then show ?thesis
      using g(2) by (rule askQuestion_response)
  qed
  from ctx tr ok show ?thesis
    by blast
qed

theorem empty_retrieval_still_generates_witness:
  "Searched ''anything'' 5 (Inr (Docs []))
     \<in> set (fst (askQuestion (sample_env (Inr (Docs []))) ''anything'' (with_openai False))) \<and>
   fst (askQuestion (sample_env (Inr (Docs []))) ''anything'' (with_openai False)) =
     [Searched ''anything'' 5 (Inr (Docs [])),
      Invoked ChatOpenAI ''No relevant context found in the knowledge base.'' ''anything''
        (Inr ''Call sdk.start().'')] \<and>
   (\<exists>v. snd (askQuestion (sample_env (Inr (Docs []))) ''anything'' (with_openai False)) = Inr v \<and>
        get_prop v ''response'' = JString ''Call sdk.start().'') \<and>
   Searched ''anything'' 5 (Inr DocsNull)
     \<in> set (fst (askQuestion (sample_env (Inr DocsNull)) ''anything'' (with_openai False))) \<and>
   fst (askQuestion (sample_env (Inr DocsNull)) ''anything'' (with_openai False)) =
     [Searched ''anything'' 5 (Inr DocsNull),
      Invoked ChatOpenAI ''No relevant context found in the knowledge base.'' ''anything''
        (Inr ''Call sdk.start().'')]"
proof -
  let ?none = "''No relevant context found in the knowledge base.''"
  let ?e = "sample_env (Inr (Docs []))"
  let ?n = "sample_env (Inr DocsNull)"
  have h1: "Searched ''anything'' 5 (Inr (Docs []))
      \<in> set (fst (askQuestion ?e ''anything'' (with_openai False)))"
    by (simp add: sample_simplified)
  have h2: "Docs [] = DocsNull \<or> Docs [] = DocsUndefined \<or> Docs [] = Docs ([] :: scored_chunk list)"
    by simp
  have h3: "Searched ''anything'' 5 (Inr DocsNull)
      \<in> set (fst (askQuestion ?n ''anything'' (with_openai False)))"
    by (simp add: sample_null_retrieval)
  have h4: "DocsNull = DocsNull \<or> DocsNull = DocsUndefined \<or> DocsNull = Docs []"
    by simp
  have i1: "invoke ?e llm ?none ''anything'' = Inr ''Call sdk.start().''" for llm
    by (simp add: sample_env_def)
  have i2: "invoke ?n llm ?none ''anything'' = Inr ''Call sdk.start().''" for llm
    by (simp add: sample_env_def)
  from empty_retrieval_still_generates [OF h1 h2] obtain llm out where
    t1: "fst (askQuestion ?e ''anything'' (with_openai False)) =
           [Searched ''anything'' 5 (Inr (Docs [])), Invoked llm ?none ''anything'' out]" and
    o1: "out = invoke ?e llm ?none ''anything''" and
    r1: "\<forall>reply. Docs [] = Docs ([] :: scored_chunk list) \<and> out = Inr reply \<longrightarrow>
           (\<exists>v. snd (askQuestion ?e ''anything'' (with_openai False)) = Inr v \<and>
                get_prop v ''response'' = JString reply)"
    by blast
  from t1 have "llm = ChatOpenAI"
    by (simp add: sample_simplified)
  with t1 o1 i1 have a: "fst (askQuestion ?e ''anything'' (with_openai False)) =
      [Searched ''anything'' 5 (Inr (Docs [])),
       Invoked ChatOpenAI ?none ''anything'' (Inr ''Call sdk.start().'')]"
    by simp
  from r1 o1 i1 have b: "\<exists>v. snd (askQuestion ?e ''anything'' (with_openai False)) = Inr v \<and>
      get_prop v ''response'' = JString ''Call sdk.start().''"
    by simp
  from empty_retrieval_still_generates [OF h3 h4] obtain llm' out' where
    t2: "fst (askQuestion ?n ''anything'' (with_openai False)) =
           [Searched ''anything'' 5 (Inr DocsNull), Invoked llm' ?none ''anything'' out']" and
    o2: "out' = invoke ?n llm' ?none ''anything''"
    by blast
  from t2 have "llm' = ChatOpenAI"
    by (simp add: sample_null_retrieval)
  with t2 o2 i2 have c: "fst (askQuestion ?n ''anything'' (with_openai False)) =
      [Searched ''anything'' 5 (Inr DocsNull),
       Invoked ChatOpenAI ?none ''anything'' (Inr ''Call sdk.start().'')]"
    by simp
  from h1 a b h3 c show ?thesis
    by (intro conjI)
qed

section \<open>The provider of a request\<close>

text \<open>
  Without a provider in the options, \<^verbatim>\<open>askQuestion\<close> passes \<^verbatim>\<open>null\<close> on, the default of
  \<^verbatim>\<open>getProvider\<close>'s parameter does not apply, and the lookup fails before anything is
  searched.
\<close>

lemma omitted_provider_fails:
  "provider opts = None \<Longrightarrow>
     askQuestion e q opts =
       ([], Inl (Error (''Failed to generate response: LLM provider 'null' not available. '' @
                        ''Available providers: '' @
                        join (getAvailableProviders (providers e)) '', '')))"
  by (simp add: askQuestion_def generateResponse_def getProvider_def getAvailableProviders_def
        Let_def)

text \<open>
  When a name is given, a successful request reports that name, and the model invoked is
  the client registered under it.
\<close>

lemma registered_names:
  assumes "initializeProviders config = Inr ps"
  shows "set (getAvailableProviders ps) \<subseteq> {''openai'', ''anthropic'', ''bedrock''}"
  using assms
  by (auto simp: initializeProviders_def getAvailableProviders_def Let_def split: if_splits)

lemma named_provider_reported:
  assumes "initializeProviders config = Inr (providers e)"
    and "provider opts = Some n"
    and "snd (askQuestion e q opts) = Inr r"
  shows "get_prop (get_prop r ''metadata'') ''provider'' = JString n \<and>
         (\<exists>llm context out. map_of (providers e) n = Some llm \<and>
            Invoked llm context q out \<in> set (fst (askQuestion e q opts)))"
proof -
  let ?k = "case maxContextDocs opts of None \<Rightarrow> 5 | Some n \<Rightarrow> n"
  from askQuestion_success [OF assms(3)] obtain g where
    gen: "generateResponse e q (provider opts) ?k = (fst (askQuestion e q opts), Inr g)" and
    r: "r = (if includeContext opts = Some True then g
             else JObject
                [(''response'', get_prop g ''response''),
                 (''sources'', get_prop (get_prop g ''context'') ''sources''),
                 (''metadata'', JObject
                    [(''provider'', get_prop (get_prop g ''metadata'') ''provider''),
                     (''timestamp'', get_prop (get_prop g ''metadata'') ''timestamp'')])])"
    by blast
  from generateResponse_success [OF gen] assms(2) obtain llm ds reply where
    found: "getProvider (providers e) (default_name e) (ArgString n) = Inr llm" and
    tr: "fst (askQuestion e q opts) =
           [Searched q ?k (Inr (Docs ds)),
            Invoked llm (formatContext (Docs ds)) q (Inr reply)]" and
    g: "shape_result e q (Some n) (Docs ds) reply = Inr g"
    by auto
  from found have reg: "map_of (providers e) n = Some llm"
    by (simp add: getProvider_def split: option.splits)
  then have "n \<in> set (getAvailableProviders (providers e))"
    by (auto simp: getAvailableProviders_def dest: map_of_SomeD intro: rev_image_eqI)
  with registered_names [OF assms(1)] have "n \<noteq> []"
    by auto
  then have "provider_label (providers e) (Some n) = JString n"
    by (simp add: provider_label_def)
  with g have "get_prop (get_prop g ''metadata'') ''provider'' = JString n"
    by (auto simp: shape_result_Docs)
  with r have "get_prop (get_prop r ''metadata'') ''provider'' = JString n"
    by simp
  moreover from tr have
    "Invoked llm (formatContext (Docs ds)) q (Inr reply) \<in> set (fst (askQuestion e q opts))"
    by simp
  ultimately show ?thesis
    using reg by blast
qed

text \<open>
  C4. The service has OpenAI registered and configured as the default. Asked without a
  provider name, \<^verbatim>\<open>getProvider\<close> on its own would return the default provider, but
  \<^verbatim>\<open>askQuestion\<close> fails with the lookup error for the name \<^verbatim>\<open>null\<close>, having searched
  nothing and invoked no model.
\<close>

theorem omitted_provider_request_fails:
  "initializeProviders sample_config = Inr (providers (sample_env (Inr (Docs [otel_chunk])))) \<and>
   default_name (sample_env (Inr (Docs [otel_chunk]))) = defaultProvider sample_config \<and>
   getProvider (providers (sample_env (Inr (Docs [otel_chunk]))))
     (default_name (sample_env (Inr (Docs [otel_chunk])))) ArgUndefined = Inr ChatOpenAI \<and>
   askQuestion (sample_env (Inr (Docs [otel_chunk]))) ''How do I start tracing?'' no_provider =
     ([], Inl (Error ''Failed to generate response: LLM provider 'null' not available. Available providers: openai''))"
proof -
  have a: "initializeProviders sample_config =
      Inr (providers (sample_env (Inr (Docs [otel_chunk]))))"
    by (rule sample_registry)
  have b: "default_name (sample_env (Inr (Docs [otel_chunk]))) = defaultProvider sample_config"
    by (simp add: sample_env_def sample_config_def)
  have c: "getProvider (providers (sample_env (Inr (Docs [otel_chunk]))))
     (default_name (sample_env (Inr (Docs [otel_chunk])))) ArgUndefined = Inr ChatOpenAI"
    by (simp add: getProvider_def sample_env_def)
  have "provider no_provider = None"
    by (simp add: no_provider_def)
  then have d: "askQuestion (sample_env (Inr (Docs [otel_chunk]))) ''How do I start tracing?''
      no_provider =
     ([], Inl (Error ''Failed to generate response: LLM provider 'null' not available. Available providers: openai''))"
    by (simp add: omitted_provider_fails getAvailableProviders_def sample_env_def)
  from a b c d show ?thesis
    by (intro conjI)
qed

section \<open>Context alone and context for an answer\<close>

lemma getContextForQuestion_success:
  assumes "snd (getContextForQuestion e q k) = Inr c"
  shows "\<exists>ds. similaritySearchWithScore e q k = Inr (Docs ds) \<and>
              c = JObject
                    [(''context'', JString (formatContext (Docs ds))),
                     (''sources'', JArray (map JString (foldl add_source [] ds))),
                     (''documentCount'', JNumber (Finite (of_nat (length ds))))]"
proof (cases "similaritySearchWithScore e q k")
  case (Inl err)
  with assms show ?thesis
    by (simp add: getContextForQuestion_def)
next
  case (Inr docs)
  with assms show ?thesis
    by (cases docs) (auto simp: getContextForQuestion_def)
qed

text \<open>
  C7. For the same question and the same number of documents, a successful
  \<^verbatim>\<open>getContextForQuestion\<close> and a successful \<^verbatim>\<open>askQuestion\<close> rest on the same chunk list:
  the \<^verbatim>\<open>sources\<close> of the one are the sources \<^verbatim>\<open>generateResponse\<close> computes for the other
  (and \<^verbatim>\<open>askQuestion\<close> returns), and \<^verbatim>\<open>documentCount\<close> is \<^verbatim>\<open>documentsUsed\<close>, the length of
  that list.
\<close>

theorem context_and_answer_agree:
  assumes "snd (getContextForQuestion e q k) = Inr c"
    and "snd (askQuestion e q opts) = Inr r"
    and "k = (case maxContextDocs opts of None \<Rightarrow> 5 | Some n \<Rightarrow> n)"
  shows "\<exists>ds S g.
           similaritySearchWithScore e q k = Inr (Docs ds) \<and>
           extractSources (Docs ds) = Inr S \<and>
           get_prop c ''sources'' = JArray (map JString S) \<and>
           get_prop c ''documentCount'' = JNumber (Finite (of_nat (length ds))) \<and>
           snd (generateResponse e q (provider opts) k) = Inr g \<and>
           get_prop (get_prop g ''context'') ''sources'' = JArray (map JString S) \<and>
           get_prop (get_prop g ''context'') ''documentsUsed'' = JNumber (Finite (of_nat (length ds))) \<and>
           (if includeContext opts = Some True then r = g
            else get_prop r ''sources'' = JArray (map JString S))"
proof -
  from getContextForQuestion_success [OF assms(1)] obtain ds where
    found: "similaritySearchWithScore e q k = Inr (Docs ds)" and
    c: "c = JObject
              [(''context'', JString (formatContext (Docs ds))),
               (''sources'', JArray (map JString (foldl add_source [] ds))),
               (''documentCount'', JNumber (Finite (of_nat (length ds))))]"
    by blast
  from askQuestion_success [OF assms(2)] assms(3) obtain g where
    gen: "generateResponse e q (provider opts) k = (fst (askQuestion e q opts), Inr g)" and
    r: "r = (if includeContext opts = Some True then g
             else JObject
                [(''response'', get_prop g ''response''),
                 (''sources'', get_prop (get_prop g ''context'') ''sources''),
                 (''metadata'', JObject
                    [(''provider'', get_prop (get_prop g ''metadata'') ''provider''),
                     (''timestamp'', get_prop (get_prop g ''metadata'') ''timestamp'')])])"
    by auto
  from generateResponse_success [OF gen] found obtain reply where
    g: "shape_result e q (provider opts) (Docs ds) reply = Inr g"
    by auto
  let ?S = "foldl add_source [] ds"
  have g_src: "get_prop (get_prop g ''context'') ''sources'' = JArray (map JString ?S)"
    and g_len: "get_prop (get_prop g ''context'') ''documentsUsed'' = JNumber (Finite (of_nat (length ds)))"
    using g by (auto simp: shape_result_Docs)
  have "extractSources (Docs ds) = Inr ?S"
    by simp
  moreover have "get_prop c ''sources'' = JArray (map JString ?S)"
    and "get_prop c ''documentCount'' = JNumber (Finite (of_nat (length ds)))"
    by (simp_all add: c)
  moreover have "snd (generateResponse e q (provider opts) k) = Inr g"
    by (simp add: gen)
  moreover have "if includeContext opts = Some True then r = g
      else get_prop r ''sources'' = JArray (map JString ?S)"
    using r g_src by simp
  ultimately show ?thesis
    using found g_src g_len by blast
qed

theorem context_and_answer_agree_witness:
  "snd (getContextForQuestion (sample_env (Inr (Docs [otel_chunk]))) ''How do I start tracing?'' 5) =
     Inr (JObject
       [(''context'',
           JString ''Source: otel-docs (Relevance: 0.870)\<newline>Use NodeSDK to start tracing.''),
        (''sources'', JArray [JString ''otel-docs'']),
        (''documentCount'', JNumber (Finite 1))]) \<and>
   snd (askQuestion (sample_env (Inr (Docs [otel_chunk]))) ''How do I start tracing?''
          (with_openai True)) = Inr otel_answer \<and>
   (5 :: int) = (case maxContextDocs (with_openai True) of None \<Rightarrow> 5 | Some n \<Rightarrow> n) \<and>
   (\<exists>ds S. similaritySearchWithScore (sample_env (Inr (Docs [otel_chunk])))
              ''How do I start tracing?'' 5 = Inr (Docs ds) \<and>
           JArray [JString ''otel-docs''] = JArray (map JString S) \<and>
           JNumber (Finite 1) = JNumber (Finite (of_nat (length ds))) \<and>
           get_prop (get_prop otel_answer ''context'') ''sources'' = JArray (map JString S) \<and>
           get_prop (get_prop otel_answer ''context'') ''documentsUsed'' =
             JNumber (Finite (of_nat (length ds))))"
proof -
  let ?e = "sample_env (Inr (Docs [otel_chunk]))"
  let ?c = "JObject
       [(''context'',
           JString ''Source: otel-docs (Relevance: 0.870)\<newline>Use NodeSDK to start tracing.''),
        (''sources'', JArray [JString ''otel-docs'']),
        (''documentCount'', JNumber (Finite 1))]"
  have s: "foldl add_source [] [otel_chunk] = [''otel-docs'']"
    by (simp add: add_source_def set_add_def metadata_source_def otel_chunk_def)
  have f: "formatContext (Docs [otel_chunk]) =
      ''Source: otel-docs (Relevance: 0.870)\<newline>Use NodeSDK to start tracing.''"
    unfolding otel_chunk_def formatContext.simps list.map join.simps format_chunk_text
      toFixed3_double_087
    by (simp add: source_or_unknown_def metadata_source_def)
  have found: "similaritySearchWithScore ?e ''How do I start tracing?'' 5 = Inr (Docs [otel_chunk])"
    by (simp add: sample_env_def)
  have h1: "snd (getContextForQuestion ?e ''How do I start tracing?'' 5) = Inr ?c"
    unfolding getContextForQuestion_def Let_def found sum.case extractSources.simps
      docs_length.simps s f
    by simp
  have h2: "snd (askQuestion ?e ''How do I start tracing?'' (with_openai True)) = Inr otel_answer"
    unfolding sample_otel_answer by simp
  have h3: "(5 :: int) = (case maxContextDocs (with_openai True) of None \<Rightarrow> 5 | Some n \<Rightarrow> n)"
    by (simp add: with_openai_def)
  have o: "includeContext (with_openai True) = Some True"
    by (simp add: with_openai_def)
  from context_and_answer_agree [OF h1 h2 h3] obtain ds S g where
    "similaritySearchWithScore ?e ''How do I start tracing?'' 5 = Inr (Docs ds)"
    "get_prop ?c ''sources'' = JArray (map JString S)"
    "get_prop ?c ''documentCount'' = JNumber (Finite (of_nat (length ds)))"
    "get_prop (get_prop g ''context'') ''sources'' = JArray (map JString S)"
    "get_prop (get_prop g ''context'') ''documentsUsed'' = JNumber (Finite (of_nat (length ds)))"
    "if includeContext (with_openai True) = Some True then otel_answer = g
     else get_prop otel_answer ''sources'' = JArray (map JString S)"
    by blast
  with o have "\<exists>ds S. similaritySearchWithScore ?e ''How do I start tracing?'' 5 = Inr (Docs ds) \<and>
           JArray [JString ''otel-docs''] = JArray (map JString S) \<and>
           JNumber (Finite 1) = JNumber (Finite (of_nat (length ds))) \<and>
           get_prop (get_prop otel_answer ''context'') ''sources'' = JArray (map JString S) \<and>
           get_prop (get_prop otel_answer ''context'') ''documentsUsed'' =
             JNumber (Finite (of_nat (length ds)))"
    by (intro exI [of _ ds] exI [of _ S]) simp
  with h1 h2 h3 show ?thesis
    by (intro conjI)
qed

end
